theory Spec2Isabelle
  imports Complex_Main "HOL-Library.Log_Nat"
begin

section \<open>Transaction correlation service\<close>

text \<open>
  A shallow embedding of the class \<open>CorrelationService\<close> (candidate search, oracle
  gateway, decision loop and merge) together with the two record-store calls it uses.
  A JavaScript number that holds an amount is the rational it denotes, and every
  arithmetic operation on amounts rounds its result to the nearest double; a confidence is
  an integer. A timestamp is the time value of the \<open>Date\<close> built from it (milliseconds
  since the epoch, at most 8640000000000000 in absolute value); \<open>None\<close> is a timestamp
  that is \<open>undefined\<close>, for which \<open>new Date\<close> is an invalid date and every getter
  is NaN.
\<close>

subsection \<open>The Date getters used by the service\<close>

text \<open>
  The getters follow the ECMAScript definitions. \<open>tz\<close> is the offset of local time
  from UTC in milliseconds (a fixed offset; daylight saving changes are not modelled).
\<close>

definition msPerDay :: int where
  "msPerDay = 86400000"

definition getHours :: "int \<Rightarrow> int \<Rightarrow> int" where
  "getHours tz t = ((t + tz) div 3600000) mod 24"

definition getMinutes :: "int \<Rightarrow> int \<Rightarrow> int" where
  "getMinutes tz t = ((t + tz) div 60000) mod 60"

definition getSeconds :: "int \<Rightarrow> int \<Rightarrow> int" where
  "getSeconds tz t = ((t + tz) div 1000) mod 60"

text \<open>Day of the month (1..31) of a day number counted from 1970-01-01.\<close>

definition DateFromDay :: "int \<Rightarrow> int" where
  "DateFromDay day =
     (let z = day + 719468;
          era = z div 146097;
          doe = z - era * 146097;
          yoe = (doe - doe div 1460 + doe div 36524 - doe div 146096) div 365;
          doy = doe - (365 * yoe + yoe div 4 - yoe div 100);
          mp = (5 * doy + 2) div 153
      in doy - (153 * mp + 2) div 5 + 1)"

definition getDate :: "int \<Rightarrow> int \<Rightarrow> int" where
  "getDate tz t = DateFromDay ((t + tz) div msPerDay)"

text \<open>
  \<open>Date.UTC\<close> for a calendar date and a time of day, used to write timestamps down
  (months are 1..12 here).
\<close>

definition DayFromCivil :: "int \<Rightarrow> int \<Rightarrow> int \<Rightarrow> int" where
  "DayFromCivil y m d =
     (let y' = (if m \<le> 2 then y - 1 else y);
          era = y' div 400;
          yoe = y' - era * 400;
          doy = (153 * (if m > 2 then m - 3 else m + 9) + 2) div 5 + d - 1;
          doe = yoe * 365 + yoe div 4 - yoe div 100 + doy
      in era * 146097 + doe - 719468)"

definition utc :: "int \<Rightarrow> int \<Rightarrow> int \<Rightarrow> int \<Rightarrow> int \<Rightarrow> int \<Rightarrow> int" where
  "utc y m d hh mi ss = DayFromCivil y m d * msPerDay + hh * 3600000 + mi * 60000 + ss * 1000"

subsection \<open>Matching parameters and tests\<close>

text \<open>
  IEEE 754 binary64 arithmetic on finite numbers: the exact result is rounded to the
  nearest number with a significand of 53 bits, a tie to the one whose significand is
  even. Below \<open>2 powi (-1022)\<close> the spacing stays \<open>2 powi (-1074)\<close>. A result of
  magnitude \<open>2 powi 1024\<close> or more is Infinity in the code; it is left as the large
  number it is, which every comparison with a finite number decides the same way. NaN and
  amounts that are no numbers are outside the type.
\<close>

definition ilog2 :: "rat \<Rightarrow> int" where
  "ilog2 x =
     (let (p, q) = quotient_of \<bar>x\<bar>;
          k = bitlen p - bitlen q
      in if 2 powi k \<le> \<bar>x\<bar> then k else k - 1)"

definition round_half_even :: "rat \<Rightarrow> int" where
  "round_half_even y =
     (let f = \<lfloor>y\<rfloor>;
          r = y - of_int f
      in if r < 1 / 2 then f
         else if 1 / 2 < r then f + 1
         else if even f then f else f + 1)"

definition to_double :: "rat \<Rightarrow> rat" where
  "to_double x =
     (if x = 0 then 0
      else (let e = max (ilog2 x) (- 1022);
                ulp = 2 powi (e - 52)
            in of_int (round_half_even (x / ulp)) * ulp))"

text \<open>The literal \<open>0.05\<close> is the double nearest to one twentieth.\<close>

definition amountTolerance :: rat where
  "amountTolerance = to_double (5 / 100)"

definition timeWindowHours :: int where
  "timeWindowHours = 1"

definition timeWindowDays :: int where
  "timeWindowDays = 1"

definition isAmountMatch :: "rat \<Rightarrow> rat \<Rightarrow> bool" where
  "isAmountMatch amount1 amount2 =
     (let tolerance = to_double (max amount1 amount2 * amountTolerance);
          difference = \<bar>to_double (amount1 - amount2)\<bar>
      in difference \<le> tolerance)"

text \<open>
  On an invalid date the three getters are NaN, no comparison with 0 holds, and the
  timestamp counts as precise.
\<close>

definition hasPreciseTime :: "int \<Rightarrow> int option \<Rightarrow> bool" where
  "hasPreciseTime tz timestamp =
     (case timestamp of
        None \<Rightarrow> True
      | Some t \<Rightarrow> \<not> (getHours tz t = 0 \<and> getMinutes tz t = 0 \<and> getSeconds tz t = 0))"

text \<open>Both branches compare NaN when a date is invalid, and the comparison is false.\<close>

definition isTimeMatch :: "int \<Rightarrow> int option \<Rightarrow> int option \<Rightarrow> bool" where
  "isTimeMatch tz timestamp1 timestamp2 =
     (if hasPreciseTime tz timestamp1 \<and> hasPreciseTime tz timestamp2 then
        (case (timestamp1, timestamp2) of
           (Some time1, Some time2) \<Rightarrow>
             (let diffHours = (of_int \<bar>time1 - time2\<bar> :: rat) / (1000 * 60 * 60)
              in diffHours \<le> of_int timeWindowHours)
         | _ \<Rightarrow> False)
      else
        (case (timestamp1, timestamp2) of
           (Some time1, Some time2) \<Rightarrow>
             (let diffDays = \<bar>getDate tz time1 - getDate tz time2\<bar>
              in diffDays \<le> timeWindowDays)
         | _ \<Rightarrow> False))"

definition chooseBetterTimestamp :: "int \<Rightarrow> int option \<Rightarrow> int option \<Rightarrow> int option" where
  "chooseBetterTimestamp tz existing newTimestamp =
     (if existing = None then newTimestamp
      else if newTimestamp = None then existing
      else if hasPreciseTime tz newTimestamp \<and> \<not> hasPreciseTime tz existing then newTimestamp
      else existing)"


text \<open>
  \<open>setHours\<close> and \<open>setDate\<close> normalise an hour or a day out of range, so with a
  fixed offset they move the time value by whole hours and days. A time value beyond
  8640000000000000 in absolute value makes the date invalid (\<open>TimeClip\<close>), and
  \<open>toISOString\<close> raises a RangeError on an invalid date.
\<close>

datatype error = Error string | RangeError string | TypeError string

definition TimeClip :: "int \<Rightarrow> int option" where
  "TimeClip t = (if \<bar>t\<bar> \<le> 8640000000000000 then Some t else None)"

definition toISOString :: "int option \<Rightarrow> error + int" where
  "toISOString date =
     (case date of None \<Rightarrow> Inl (RangeError ''Invalid time value'') | Some t \<Rightarrow> Inr t)"

definition calculateTimeWindow :: "int \<Rightarrow> int option \<Rightarrow> error + (int \<times> int)" where
  "calculateTimeWindow tz timestamp =
     (case Option.bind timestamp TimeClip of
        None \<Rightarrow> Inl (RangeError ''Invalid time value'')
      | Some baseTime \<Rightarrow>
          (let (start, end) =
                 (if hasPreciseTime tz timestamp
                  then (TimeClip (baseTime - timeWindowHours * 3600000),
                        TimeClip (baseTime + timeWindowHours * 3600000))
                  else (TimeClip (baseTime - timeWindowDays * msPerDay),
                        TimeClip (baseTime + timeWindowDays * msPerDay)))
           in (case toISOString start of
                 Inl e \<Rightarrow> Inl e
               | Inr s \<Rightarrow> (case toISOString end of Inl e \<Rightarrow> Inl e | Inr e \<Rightarrow> Inr (s, e)))))"

subsection \<open>Documents\<close>

text \<open>
  A field that may be missing is an option. For a string \<open>None\<close> stands for
  \<open>undefined\<close> and \<open>null\<close> alike: a string is falsy when it is missing or empty, a
  number when it is 0.
\<close>

record item =
  name :: "string option"
  quantity :: "int option"
  price :: "rat option"

record source =
  input_type :: "string option"
  uri :: "string option"
  added_at :: "int option"

record correlation_info =
  merged_at :: int
  info_correlation_type :: string
  info_confidence :: int
  info_reason :: "string option"
  merged_transaction_id :: string

record transaction =
  tx_id :: "string option"
  merchant :: "string option"
  amount :: rat
  currency :: "string option"
  category :: "string option"
  items :: "item list option"
  timestamp :: "int option"
  sources :: "source list option"
  correlation_id :: "string option"
  correlation_info :: "correlation_info option"
  updated_at :: "int option"

record input_data =
  input_data_type :: "string option"
  metadata_uri :: "string option"

definition truthy :: "string option \<Rightarrow> bool" where
  "truthy s = (case s of None \<Rightarrow> False | Some v \<Rightarrow> v \<noteq> [])"

definition or_string :: "string option \<Rightarrow> string option \<Rightarrow> string option" where
  "or_string a b = (if truthy a then a else b)"

definition or_number :: "rat \<Rightarrow> rat \<Rightarrow> rat" where
  "or_number a b = (if a \<noteq> 0 then a else b)"

subsection \<open>The record store\<close>

text \<open>
  \<open>getUserTransactions\<close> builds the constraints of a query and hands them to the
  store. The store itself is outside the service: \<open>getDocs\<close> is whatever it answers,
  documents or a failure.
\<close>

datatype qvalue = VString string | VTime int

datatype constraint =
    WhereEq string qvalue
  | WhereGe string qvalue
  | WhereLe string qvalue
  | OrderByDesc string
  | Limit nat

record filters =
  filter_category :: "string option"
  startDate :: "int option"
  endDate :: "int option"
  filter_status :: "string option"
  limit :: "nat option"

definition build_constraints :: "string \<Rightarrow> filters \<Rightarrow> constraint list" where
  "build_constraints userId fs =
     [WhereEq ''userId'' (VString userId)]
     @ (if truthy (filter_category fs) then [WhereEq ''category'' (VString (the (filter_category fs)))] else [])
     @ (case startDate fs of None \<Rightarrow> [] | Some s \<Rightarrow> [WhereGe ''timestamp'' (VTime s)])
     @ (case endDate fs of None \<Rightarrow> [] | Some e \<Rightarrow> [WhereLe ''timestamp'' (VTime e)])
     @ (if truthy (filter_status fs) then [WhereEq ''status'' (VString (the (filter_status fs)))]
        else [WhereEq ''status'' (VString ''active'')])
     @ [OrderByDesc ''timestamp'']
     @ (case limit fs of None \<Rightarrow> [] | Some n \<Rightarrow> (if n = 0 then [] else [Limit n]))"

definition error_message :: "error \<Rightarrow> string" where
  "error_message e = (case e of Error m \<Rightarrow> m | RangeError m \<Rightarrow> m | TypeError m \<Rightarrow> m)"

definition getUserTransactions ::
  "(constraint list \<Rightarrow> error + transaction list) \<Rightarrow> string \<Rightarrow> filters \<Rightarrow> error + transaction list" where
  "getUserTransactions getDocs userId fs =
     (case getDocs (build_constraints userId fs) of
        Inl e \<Rightarrow> Inl (Error (''Failed to fetch transactions: '' @ error_message e))
      | Inr transactions \<Rightarrow> Inr transactions)"

subsection \<open>Candidate search\<close>

text \<open>
  The whole body runs inside \<open>try\<close>; the handler logs the error and returns the empty
  list.
\<close>

definition findPotentialMatches ::
  "(constraint list \<Rightarrow> error + transaction list) \<Rightarrow> int \<Rightarrow> transaction \<Rightarrow> string
     \<Rightarrow> error + transaction list" where
  "findPotentialMatches getDocs tz newTransaction userId =
     (case calculateTimeWindow tz (timestamp newTransaction) of
        Inl e \<Rightarrow> Inr []
      | Inr (start, end) \<Rightarrow>
          (case getUserTransactions getDocs userId
                  \<lparr>filter_category = None, startDate = Some start, endDate = Some end,
                   filter_status = None, limit = Some 50\<rparr> of
             Inl e \<Rightarrow> Inr []
           | Inr recentTransactions \<Rightarrow>
               Inr (filter (\<lambda>transaction.
                      \<not> (tx_id transaction = tx_id newTransaction)
                    \<and> \<not> (truthy (correlation_id transaction) \<or> truthy (correlation_id newTransaction))
                    \<and> isAmountMatch (amount newTransaction) (amount transaction)
                    \<and> isTimeMatch tz (timestamp newTransaction) (timestamp transaction))
                    recentTransactions)))"

subsection \<open>The oracle gateway\<close>

text \<open>
  An entry of the oracle's \<open>correlations\<close> array as \<open>JSON.parse\<close> delivers it, and
  the same entry once the defaults are filled in. The fields carry the types of the
  requested schema.
\<close>

record raw_correlation =
  raw_transaction_index :: "nat option"
  raw_is_correlated :: "bool option"
  raw_confidence :: "int option"
  raw_correlation_type :: "string option"
  raw_reason :: "string option"
  raw_recommended_action :: "string option"

record correlation =
  transaction_index :: "nat option"
  is_correlated :: bool
  confidence :: int
  correlation_type :: string
  reason :: "string option"
  recommended_action :: string

text \<open>
  What \<open>JSON.parse\<close> returns for the cleaned text: a value that is no object
  (\<open>null\<close>, a number, a string, a boolean), or an object with its \<open>correlations\<close>
  property, \<open>None\<close> when the property is missing or no array. An entry of the array
  that is no object is \<open>None\<close>.
\<close>

datatype json_analysis =
    NotAnObject
  | Object "raw_correlation option list option"

definition default_correlation :: "nat \<Rightarrow> string \<Rightarrow> correlation" where
  "default_correlation index why =
     \<lparr>transaction_index = Some (index + 1), is_correlated = False, confidence = 0,
      correlation_type = ''unrelated'', reason = Some why,
      recommended_action = ''keep_separate''\<rparr>"

definition default_response :: "nat \<Rightarrow> string \<Rightarrow> correlation list" where
  "default_response count why = map (\<lambda>index. default_correlation index why) [0..<count]"

definition missing_correlation :: "nat \<Rightarrow> raw_correlation" where
  "missing_correlation len =
     \<lparr>raw_transaction_index = Some (len + 1), raw_is_correlated = Some False,
      raw_confidence = Some 0, raw_correlation_type = Some ''unrelated'',
      raw_reason = Some ''No analysis provided'',
      raw_recommended_action = Some ''keep_separate''\<rparr>"

text \<open>The \<open>while\<close> loop that fills missing correlations.\<close>

function fill_missing :: "raw_correlation option list \<Rightarrow> nat \<Rightarrow> raw_correlation option list" where
  "fill_missing correlations expectedCount =
     (if length correlations < expectedCount
      then fill_missing (correlations @ [Some (missing_correlation (length correlations))]) expectedCount
      else correlations)"
  by pat_completeness auto
termination
  by (relation "measure (\<lambda>(correlations, expectedCount). expectedCount - length correlations)") auto

definition set_defaults :: "raw_correlation \<Rightarrow> correlation" where
  "set_defaults c =
     \<lparr>transaction_index = raw_transaction_index c,
      is_correlated = (case raw_is_correlated c of None \<Rightarrow> False | Some b \<Rightarrow> b),
      confidence = (case raw_confidence c of None \<Rightarrow> 0 | Some n \<Rightarrow> n),
      correlation_type =
        (if truthy (raw_correlation_type c) then the (raw_correlation_type c) else ''unrelated''),
      reason = raw_reason c,
      recommended_action =
        (if truthy (raw_recommended_action c) then the (raw_recommended_action c)
         else ''keep_separate'')\<rparr>"

text \<open>
  The argument is the outcome of the text clean-up followed by \<open>JSON.parse\<close>: the parsed
  value, or the exception one of them raised. Reading a property of \<open>null\<close> and, in the
  strict code of a class body, writing a property of a primitive value raise a
  TypeError; all of it happens inside \<open>try\<close>.
\<close>

definition parseMultipleCorrelationResponse ::
  "error + json_analysis \<Rightarrow> nat \<Rightarrow> error + correlation list" where
  "parseMultipleCorrelationResponse parsed expectedCount =
     (case parsed of
        Inl e \<Rightarrow> Inr (default_response expectedCount ''Failed to parse analysis'')
      | Inr NotAnObject \<Rightarrow> Inr (default_response expectedCount ''Failed to parse analysis'')
      | Inr (Object property) \<Rightarrow>
          (let correlations = fill_missing (case property of None \<Rightarrow> [] | Some cs \<Rightarrow> cs) expectedCount
           in if None \<in> set correlations
              then Inr (default_response expectedCount ''Failed to parse analysis'')
              else Inr (map (\<lambda>c. set_defaults (the c)) correlations)))"

text \<open>
  \<open>callGemini\<close> is the oracle: its reply to the request that describes the new
  transaction and the candidates, or its failure. \<open>parseJson\<close> is the clean-up of the
  reply followed by \<open>JSON.parse\<close>.
\<close>

definition analyzeMultipleCorrelationsWithGemini ::
  "(transaction \<Rightarrow> transaction list \<Rightarrow> error + string) \<Rightarrow> (string \<Rightarrow> error + json_analysis)
     \<Rightarrow> transaction \<Rightarrow> transaction list \<Rightarrow> error + correlation list" where
  "analyzeMultipleCorrelationsWithGemini callGemini parseJson newTransaction potentialMatches =
     (case callGemini newTransaction potentialMatches of
        Inl e \<Rightarrow> Inr (default_response (length potentialMatches) ''Analysis failed'')
      | Inr response \<Rightarrow>
          (case parseMultipleCorrelationResponse (parseJson response) (length potentialMatches) of
             Inl e \<Rightarrow> Inr (default_response (length potentialMatches) ''Analysis failed'')
           | Inr analysis \<Rightarrow> Inr analysis))"

subsection \<open>The decision loop\<close>

text \<open>
  The \<open>for\<close> loop of \<open>findCorrelations\<close> over the indices of \<open>potentialMatches\<close>,
  carrying \<open>bestMatch\<close> and \<open>bestConfidence\<close>. Past the end of \<open>correlations\<close> the
  analysis is \<open>undefined\<close> and nothing changes any more.
\<close>

fun best_loop ::
  "transaction list \<Rightarrow> correlation list \<Rightarrow> (transaction \<times> correlation) option \<times> int
     \<Rightarrow> (transaction \<times> correlation) option \<times> int" where
  "best_loop [] correlations best = best"
| "best_loop (m # potentialMatches) [] best = best"
| "best_loop (m # potentialMatches) (analysis # correlations) (bestMatch, bestConfidence) =
     best_loop potentialMatches correlations
       (if is_correlated analysis \<and> confidence analysis > bestConfidence
        then (Some (m, analysis), confidence analysis)
        else (bestMatch, bestConfidence))"

subsection \<open>Merging\<close>

text \<open>
  A character is a code unit below 256. In that range \<open>toLowerCase\<close> lowers the
  letters A to Z and the letters from U+00C0 to U+00DE but the multiplication sign
  U+00D7; it leaves every other character as it is. Names with code units from 256 on are
  outside the type.
\<close>

definition toLowerCase :: "string \<Rightarrow> string" where
  "toLowerCase s =
     map (\<lambda>c. if (65 \<le> (of_char c :: nat) \<and> (of_char c :: nat) \<le> 90)
                \<or> (192 \<le> (of_char c :: nat) \<and> (of_char c :: nat) \<le> 222
                    \<and> (of_char c :: nat) \<noteq> 215)
              then char_of ((of_char c :: nat) + 32) else c) s"

definition same_name :: "item \<Rightarrow> item \<Rightarrow> bool" where
  "same_name item newItem =
     (map_option toLowerCase (name item) = map_option toLowerCase (name newItem))"

fun merge_loop :: "item list \<Rightarrow> item list \<Rightarrow> item list" where
  "merge_loop merged [] = merged"
| "merge_loop merged (newItem # newItems) =
     merge_loop
       (case find (\<lambda>item. same_name item newItem) merged of
          None \<Rightarrow> merged @ [newItem]
        | Some exists \<Rightarrow> merged)
       newItems"

definition mergeItems :: "item list option \<Rightarrow> item list option \<Rightarrow> item list" where
  "mergeItems existingItems newItems =
     (if existingItems = None \<or> existingItems = Some []
      then (case newItems of None \<Rightarrow> [] | Some ns \<Rightarrow> ns)
      else if newItems = None \<or> newItems = Some [] then the existingItems
      else merge_loop (the existingItems) (the newItems))"

record merged_data =
  md_sources :: "source list"
  md_merchant :: "string option"
  md_amount :: rat
  md_currency :: "string option"
  md_category :: "string option"
  md_items :: "item list"
  md_timestamp :: "int option"
  md_correlation_info :: correlation_info
  md_updated_at :: int

text \<open>
  The object \<open>mergedData\<close> that \<open>mergeTransactions\<close> prepares; \<open>now\<close> is the clock
  reading of \<open>new Date()\<close>.
\<close>

definition mergedData ::
  "int \<Rightarrow> int \<Rightarrow> transaction \<Rightarrow> transaction \<Rightarrow> input_data \<Rightarrow> correlation \<Rightarrow> merged_data" where
  "mergedData tz now existingTransaction newTransaction inputData analysis =
     \<lparr>md_sources =
        (case sources existingTransaction of None \<Rightarrow> [] | Some ss \<Rightarrow> ss)
        @ [\<lparr>input_type = input_data_type inputData,
            uri = or_string (metadata_uri inputData) None,
            added_at = Some now\<rparr>],
      md_merchant = or_string (merchant existingTransaction) (merchant newTransaction),
      md_amount = or_number (amount existingTransaction) (amount newTransaction),
      md_currency = or_string (currency existingTransaction) (currency newTransaction),
      md_category = or_string (category existingTransaction) (category newTransaction),
      md_items = mergeItems (items existingTransaction) (items newTransaction),
      md_timestamp =
        chooseBetterTimestamp tz (timestamp existingTransaction) (timestamp newTransaction),
      md_correlation_info =
        \<lparr>merged_at = now,
         info_correlation_type = correlation_type analysis,
         info_confidence = confidence analysis,
         info_reason = reason analysis,
         merged_transaction_id =
           (if truthy (tx_id newTransaction) then the (tx_id newTransaction) else ''unknown'')\<rparr>,
      md_updated_at = now\<rparr>"

text \<open>
  The store maps the id of a document to the document. \<open>updateDoc\<close> overwrites the
  fields it is given and keeps the others; it fails on a document that does not exist.
  A store call also fails when the store says so: \<open>fault\<close> carries the message of the
  error the store raises for this call, if it raises one.
\<close>

type_synonym store = "string \<Rightarrow> transaction option"

definition apply_update :: "transaction \<Rightarrow> merged_data \<Rightarrow> int \<Rightarrow> transaction" where
  "apply_update doc updateData now =
     doc\<lparr>sources := Some (md_sources updateData),
         merchant := md_merchant updateData,
         amount := md_amount updateData,
         currency := md_currency updateData,
         category := md_category updateData,
         items := Some (md_items updateData),
         timestamp := md_timestamp updateData,
         correlation_info := Some (md_correlation_info updateData),
         updated_at := Some now\<rparr>"

definition updateTransaction ::
  "string option \<Rightarrow> int \<Rightarrow> store \<Rightarrow> string option \<Rightarrow> merged_data \<Rightarrow> (error + bool) \<times> store" where
  "updateTransaction fault now st transactionId updateData =
     (case fault of
        Some msg \<Rightarrow> (Inl (Error (''Failed to update transaction: '' @ msg)), st)
      | None \<Rightarrow>
          (case transactionId of
             None \<Rightarrow> (Inl (Error ''Failed to update transaction: invalid document reference''), st)
           | Some i \<Rightarrow>
               (case st i of
                  None \<Rightarrow> (Inl (Error ''Failed to update transaction: no document to update''), st)
                | Some doc \<Rightarrow> (Inr True, st(i \<mapsto> apply_update doc updateData now)))))"

definition deleteDuplicateTransaction ::
  "string option \<Rightarrow> store \<Rightarrow> string \<Rightarrow> (error + bool) \<times> store" where
  "deleteDuplicateTransaction fault st transactionId =
     (case fault of
        Some msg \<Rightarrow> (Inl (Error msg), st)
      | None \<Rightarrow> (Inr True, st(transactionId := None)))"

text \<open>
  \<open>mergeTransactions\<close> updates the existing document and then deletes the new one when
  it has an id. An error of either store call is logged and thrown again; what the
  store has taken up to then stays.
\<close>

definition mergeTransactions ::
  "int \<Rightarrow> int \<Rightarrow> string option \<Rightarrow> string option \<Rightarrow> store
     \<Rightarrow> transaction \<Rightarrow> transaction \<Rightarrow> input_data \<Rightarrow> correlation
     \<Rightarrow> (error + string option) \<times> store" where
  "mergeTransactions tz now updateFault deleteFault st existingTransaction newTransaction inputData analysis =
     (case updateTransaction updateFault now st (tx_id existingTransaction)
             (mergedData tz now existingTransaction newTransaction inputData analysis) of
        (Inl e, st') \<Rightarrow> (Inl e, st')
      | (Inr ok, st') \<Rightarrow>
          (if truthy (tx_id newTransaction)
           then (case deleteDuplicateTransaction deleteFault st' (the (tx_id newTransaction)) of
                   (Inl e, st'') \<Rightarrow> (Inl e, st'')
                 | (Inr ok', st'') \<Rightarrow> (Inr (tx_id existingTransaction), st''))
           else (Inr (tx_id existingTransaction), st')))"

subsection \<open>Finding and merging correlations\<close>

record merge_result =
  action :: string
  existing_transaction_id :: "string option"
  result_confidence :: int
  result_correlation_type :: string

text \<open>
  Every error raised inside \<open>findCorrelations\<close> is caught, logged and answered with
  \<open>null\<close> (\<open>None\<close>).
\<close>

definition findCorrelations ::
  "(constraint list \<Rightarrow> error + transaction list)
     \<Rightarrow> (transaction \<Rightarrow> transaction list \<Rightarrow> error + string) \<Rightarrow> (string \<Rightarrow> error + json_analysis)
     \<Rightarrow> int \<Rightarrow> int \<Rightarrow> string option \<Rightarrow> string option \<Rightarrow> store
     \<Rightarrow> transaction \<Rightarrow> string \<Rightarrow> input_data
     \<Rightarrow> (error + merge_result option) \<times> store" where
  "findCorrelations getDocs callGemini parseJson tz now updateFault deleteFault st
       newTransaction userId inputData =
     (case findPotentialMatches getDocs tz newTransaction userId of
        Inl e \<Rightarrow> (Inr None, st)
      | Inr potentialMatches \<Rightarrow>
          (if length potentialMatches = 0 then (Inr None, st)
           else
             (case analyzeMultipleCorrelationsWithGemini callGemini parseJson newTransaction
                     potentialMatches of
                Inl e \<Rightarrow> (Inr None, st)
              | Inr correlations \<Rightarrow>
                  (case best_loop potentialMatches correlations (None, 0) of
                     (None, bestConfidence) \<Rightarrow> (Inr None, st)
                   | (Some (candidate, analysis), bestConfidence) \<Rightarrow>
                       (if bestConfidence \<ge> 70
                        then (case mergeTransactions tz now updateFault deleteFault st candidate
                                     newTransaction inputData analysis of
                                (Inl e, st') \<Rightarrow> (Inr None, st')
                              | (Inr merged, st') \<Rightarrow>
                                  (Inr (Some \<lparr>action = ''merged'',
                                              existing_transaction_id = tx_id candidate,
                                              result_confidence = bestConfidence,
                                              result_correlation_type = correlation_type analysis\<rparr>),
                                   st'))
                        else (Inr None, st))))))"

subsection \<open>Verdicts of the gateway\<close>

text \<open>The verdict that stands for no correlation, whatever reason it carries.\<close>

definition no_correlation_verdict :: "correlation \<Rightarrow> bool" where
  "no_correlation_verdict v =
     (\<not> is_correlated v \<and> confidence v = 0 \<and> correlation_type v = ''unrelated''
      \<and> recommended_action v = ''keep_separate'')"

subsection \<open>Example data\<close>

text \<open>
  A card payment at a cafe that arrived by SMS, the same purchase arriving by email five
  minutes later with an item list, and a third record of the same payment.
\<close>

definition ex_existing :: transaction where
  "ex_existing =
     \<lparr>tx_id = Some ''A'', merchant = Some ''Cafe X'', amount = 250, currency = Some ''INR'',
      category = None, items = None, timestamp = Some (utc 2025 1 24 14 30 0),
      sources = Some [\<lparr>input_type = Some ''sms'', uri = None,
                        added_at = Some (utc 2025 1 24 14 30 5)\<rparr>],
      correlation_id = None, correlation_info = None,
      updated_at = Some (utc 2025 1 24 14 30 5)\<rparr>"

definition ex_new :: transaction where
  "ex_new =
     \<lparr>tx_id = Some ''B'', merchant = Some ''Cafe X'', amount = 252, currency = Some ''INR'',
      category = None,
      items = Some [\<lparr>name = Some ''Latte'', quantity = None, price = Some 252\<rparr>],
      timestamp = Some (utc 2025 1 24 14 35 0),
      sources = Some [\<lparr>input_type = Some ''email'', uri = None,
                        added_at = Some (utc 2025 1 24 14 35 2)\<rparr>],
      correlation_id = None, correlation_info = None,
      updated_at = Some (utc 2025 1 24 14 35 2)\<rparr>"

definition ex_other :: transaction where
  "ex_other = ex_existing\<lparr>tx_id := Some ''C'', updated_at := Some (utc 2025 1 24 14 33 0)\<rparr>"

definition ex_input :: input_data where
  "ex_input = \<lparr>input_data_type = Some ''email'', metadata_uri = None\<rparr>"

definition ex_verdict :: "string \<Rightarrow> int \<Rightarrow> correlation" where
  "ex_verdict kind conf =
     \<lparr>transaction_index = Some 1, is_correlated = True, confidence = conf,
      correlation_type = kind, reason = None, recommended_action = ''merge''\<rparr>"

definition ex_reply :: "string \<Rightarrow> int \<Rightarrow> json_analysis" where
  "ex_reply kind conf =
     Object (Some [Some \<lparr>raw_transaction_index = Some 1, raw_is_correlated = Some True,
                          raw_confidence = Some conf, raw_correlation_type = Some kind,
                          raw_reason = None, raw_recommended_action = Some ''merge''\<rparr>])"

definition ex_store :: store where
  "ex_store = [''A'' \<mapsto> ex_existing, ''B'' \<mapsto> ex_new]"

definition ex_getDocs :: "constraint list \<Rightarrow> error + transaction list" where
  "ex_getDocs q = Inr [ex_existing]"

definition ex_callGemini :: "transaction \<Rightarrow> transaction list \<Rightarrow> error + string" where
  "ex_callGemini newTransaction potentialMatches = Inr ''reply''"

definition ex_parseJson :: "string \<Rightarrow> int \<Rightarrow> string \<Rightarrow> error + json_analysis" where
  "ex_parseJson kind conf text = Inr (ex_reply kind conf)"

definition ex_unparsable :: "string \<Rightarrow> error + json_analysis" where
  "ex_unparsable response = Inl (Error ''Unexpected token in JSON'')"

definition ex_oracle_down :: "transaction \<Rightarrow> transaction list \<Rightarrow> error + string" where
  "ex_oracle_down newTransaction potentialMatches = Inl (Error ''timeout'')"

definition ex_batch :: "transaction list" where
  "ex_batch = [ex_existing, ex_other, ex_existing]"

definition ex_store_down :: "constraint list \<Rightarrow> error + transaction list" where
  "ex_store_down q = Inl (Error ''unavailable'')"

definition ex_correlated :: transaction where
  "ex_correlated = ex_other\<lparr>correlation_id := Some ''corr_1737729000000_k3j9x0q2a''\<rparr>"

definition ex_getDocs_correlated :: "constraint list \<Rightarrow> error + transaction list" where
  "ex_getDocs_correlated q = Inr [ex_correlated, ex_existing]"

definition ex_getDocs_only_correlated :: "constraint list \<Rightarrow> error + transaction list" where
  "ex_getDocs_only_correlated q = Inr [ex_correlated]"

definition ex_after_first_merge :: store where
  "ex_after_first_merge =
     snd (mergeTransactions 0 (utc 2025 1 24 14 35 3) None (Some ''deadline exceeded'') ex_store
            ex_existing ex_new ex_input (ex_verdict ''same_purchase'' 88))"

definition ex_after_retry :: store where
  "ex_after_retry =
     snd (mergeTransactions 0 (utc 2025 1 24 14 35 3) None None ex_after_first_merge
            (the (ex_after_first_merge ''A'')) ex_new ex_input (ex_verdict ''same_purchase'' 88))"

definition ex_not_an_object :: "string \<Rightarrow> error + json_analysis" where
  "ex_not_an_object response = Inr NotAnObject"

definition ex_empty_object :: "string \<Rightarrow> error + json_analysis" where
  "ex_empty_object response = Inr (Object None)"

definition ex_midnight_purchase :: transaction where
  "ex_midnight_purchase =
     \<lparr>tx_id = None, merchant = Some ''Cafe X'', amount = 250, currency = Some ''INR'',
      category = None, items = Some [], timestamp = Some (utc 2025 2 1 0 0 0),
      sources = None, correlation_id = None, correlation_info = None, updated_at = None\<rparr>"

definition ex_late_evening :: transaction where
  "ex_late_evening = ex_existing\<lparr>timestamp := Some (utc 2025 1 31 23 59 30)\<rparr>"

definition ex_getDocs_evening :: "constraint list \<Rightarrow> error + transaction list" where
  "ex_getDocs_evening q = Inr [ex_late_evening]"

section \<open>Properties\<close>

subsection \<open>The decision loop\<close>

lemma best_loop_mono:
  "best_loop pm cs (b, k) = (b', k') \<Longrightarrow> k \<le> k'"
proof (induction pm cs "(b, k)" arbitrary: b k rule: best_loop.induct)
  case (3 m0 pm a cs bestMatch bestConfidence)
  show ?case
  proof (cases "is_correlated a \<and> confidence a > bestConfidence")
    case True
    then have "best_loop pm cs (Some (m0, a), confidence a) = (b', k')"
      using "3.prems" by simp
    with "3.hyps" [of "Some (m0, a)" "confidence a"] True have "confidence a \<le> k'"
      by simp
    with True show ?thesis by simp
  next
    case False
    then have "best_loop pm cs (bestMatch, bestConfidence) = (b', k')"
      using "3.prems" by auto
    with "3.hyps" [of bestMatch bestConfidence] False show ?thesis
      by auto
  qed
qed simp_all

lemma best_loop_upper:
  "best_loop pm cs (b, k) = (b', k') \<Longrightarrow> (m, c) \<in> set (zip pm cs) \<Longrightarrow> is_correlated c
     \<Longrightarrow> confidence c \<le> k'"
proof (induction pm cs "(b, k)" arbitrary: b k rule: best_loop.induct)
  case (3 m0 pm a cs bestMatch bestConfidence)
  let ?next = "if is_correlated a \<and> confidence a > bestConfidence
        then (Some (m0, a), confidence a) else (bestMatch, bestConfidence)"
  have run: "best_loop pm cs ?next = (b', k')"
    using "3.prems"(1) by simp
  show ?case
  proof (cases "(m, c) = (m0, a)")
    case True
    have "snd ?next \<le> k'"
      using best_loop_mono [of pm cs "fst ?next" "snd ?next" b' k'] run by simp
    then show ?thesis
      using True "3.prems"(3) by (auto split: if_splits)
  next
    case False
    then have "(m, c) \<in> set (zip pm cs)"
      using "3.prems"(2) by auto
    then show ?thesis
      using "3.hyps" [of "fst ?next" "snd ?next"] run "3.prems"(3) by (auto split: if_splits)
  qed
qed simp_all

lemma best_loop_choice:
  "best_loop pm cs (b, k) = (b', k') \<Longrightarrow>
     (b' = b \<and> k' = k) \<or>
     (\<exists>j. j < length pm \<and> j < length cs \<and> b' = Some (pm ! j, cs ! j)
          \<and> is_correlated (cs ! j) \<and> confidence (cs ! j) = k' \<and> k < k'
          \<and> (\<forall>i<j. is_correlated (cs ! i) \<longrightarrow> confidence (cs ! i) < k'))"
proof (induction pm cs "(b, k)" arbitrary: b k rule: best_loop.induct)
  case (3 m0 pm a cs bestMatch bestConfidence)
  let ?upd = "is_correlated a \<and> confidence a > bestConfidence"
  show ?case
  proof (cases ?upd)
    case True
    then have run: "best_loop pm cs (Some (m0, a), confidence a) = (b', k')"
      using "3.prems" by simp
    from "3.hyps" [of "Some (m0, a)" "confidence a"] True run
    consider (same) "b' = Some (m0, a)" "k' = confidence a"
      | (later) j where "j < length pm" "j < length cs" "b' = Some (pm ! j, cs ! j)"
          "is_correlated (cs ! j)" "confidence (cs ! j) = k'" "confidence a < k'"
          "\<forall>i<j. is_correlated (cs ! i) \<longrightarrow> confidence (cs ! i) < k'"
      by auto
    then show ?thesis
    proof cases
      case same
      with True have "0 < length (m0 # pm) \<and> 0 < length (a # cs)
          \<and> b' = Some ((m0 # pm) ! 0, (a # cs) ! 0)
          \<and> is_correlated ((a # cs) ! 0) \<and> confidence ((a # cs) ! 0) = k' \<and> bestConfidence < k'
          \<and> (\<forall>i<0. is_correlated ((a # cs) ! i) \<longrightarrow> confidence ((a # cs) ! i) < k')"
        by simp
      then show ?thesis by blast
    next
      case later
      have "\<forall>i<Suc j. is_correlated ((a # cs) ! i) \<longrightarrow> confidence ((a # cs) ! i) < k'"
        using later(6,7) by (auto simp: nth_Cons split: nat.splits)
      with later True have "Suc j < length (m0 # pm) \<and> Suc j < length (a # cs)
          \<and> b' = Some ((m0 # pm) ! Suc j, (a # cs) ! Suc j)
          \<and> is_correlated ((a # cs) ! Suc j) \<and> confidence ((a # cs) ! Suc j) = k'
          \<and> bestConfidence < k'
          \<and> (\<forall>i<Suc j. is_correlated ((a # cs) ! i) \<longrightarrow> confidence ((a # cs) ! i) < k')"
        by simp
      then show ?thesis by blast
    qed
  next
    case False
    then have run: "best_loop pm cs (bestMatch, bestConfidence) = (b', k')"
      using "3.prems" by auto
    from "3.hyps" [of bestMatch bestConfidence] False run
    consider (same) "b' = bestMatch" "k' = bestConfidence"
      | (later) j where "j < length pm" "j < length cs" "b' = Some (pm ! j, cs ! j)"
          "is_correlated (cs ! j)" "confidence (cs ! j) = k'" "bestConfidence < k'"
          "\<forall>i<j. is_correlated (cs ! i) \<longrightarrow> confidence (cs ! i) < k'"
      by auto
    then show ?thesis
    proof cases
      case same
      then show ?thesis by simp
    next
      case later
      have "\<forall>i<Suc j. is_correlated ((a # cs) ! i) \<longrightarrow> confidence ((a # cs) ! i) < k'"
        using later(6,7) False by (auto simp: nth_Cons split: nat.splits)
      with later have "Suc j < length (m0 # pm) \<and> Suc j < length (a # cs)
          \<and> b' = Some ((m0 # pm) ! Suc j, (a # cs) ! Suc j)
          \<and> is_correlated ((a # cs) ! Suc j) \<and> confidence ((a # cs) ! Suc j) = k'
          \<and> bestConfidence < k'
          \<and> (\<forall>i<Suc j. is_correlated ((a # cs) ! i) \<longrightarrow> confidence ((a # cs) ! i) < k')"
        by simp
      then show ?thesis by blast
    qed
  qed
qed simp_all

subsection \<open>Amounts and timestamps\<close>

lemma bitlen_powi_bounds:
  assumes "0 < n"
  shows "(2::rat) powi (bitlen n - 1) \<le> of_int n" and "of_int n < (2::rat) powi bitlen n"
proof -
  have b: "2 ^ nat (bitlen n - 1) \<le> n" "n < 2 ^ nat (bitlen n)"
    using bitlen_bounds [OF assms] by simp_all
  have pos: "1 \<le> bitlen n"
    using assms bitlen_eq_zero_iff [of n] bitlen_nonneg [of n] by linarith
  have "(of_int (2 ^ nat (bitlen n - 1)) :: rat) \<le> of_int n"
    using b(1) by (simp only: of_int_le_iff)
  then show "(2::rat) powi (bitlen n - 1) \<le> of_int n"
    using pos by (simp add: power_int_def)
  have "(of_int n :: rat) < of_int (2 ^ nat (bitlen n))"
    using b(2) by (simp only: of_int_less_iff)
  then show "of_int n < (2::rat) powi bitlen n"
    using pos by (simp add: power_int_def)
qed

lemma ilog2_bounds:
  assumes "x \<noteq> 0"
  shows "2 powi ilog2 x \<le> \<bar>x\<bar>" and "\<bar>x\<bar> < 2 powi (ilog2 x + 1)"
proof -
  obtain p q where pq: "quotient_of \<bar>x\<bar> = (p, q)"
    by (cases "quotient_of \<bar>x\<bar>")
  have q: "0 < q"
    using pq by (rule quotient_of_denom_pos)
  have x: "\<bar>x\<bar> = of_int p / of_int q"
    using pq by (rule quotient_of_div)
  have p: "0 < p"
  proof (rule ccontr)
    assume "\<not> 0 < p"
    then have "of_int p / (of_int q :: rat) \<le> 0"
      using q by (simp add: divide_le_0_iff)
    with x assms show False by simp
  qed
  let ?k = "bitlen p - bitlen q"
  have P: "(2::rat) powi (bitlen p - 1) \<le> of_int p" "of_int p < (2::rat) powi bitlen p"
    using bitlen_powi_bounds [OF p] by simp_all
  have Q: "(2::rat) powi (bitlen q - 1) \<le> of_int q" "of_int q < (2::rat) powi bitlen q"
    using bitlen_powi_bounds [OF q] by simp_all
  have Qpos: "(0::rat) < of_int q" using q by simp
  have Ppos: "(0::rat) < of_int p" using p by simp
  have "of_int p / (of_int q :: rat) < 2 powi bitlen p / of_int q"
    using P(2) Qpos by (simp add: divide_strict_right_mono)
  also have "\<dots> \<le> 2 powi bitlen p / 2 powi (bitlen q - 1)"
    using Q(1) Qpos by (intro divide_left_mono mult_pos_pos) simp_all
  also have "\<dots> = 2 powi (bitlen p - (bitlen q - 1))"
    by (rule power_int_diff [symmetric]) simp
  also have "\<dots> = 2 powi (?k + 1)"
    by (rule arg_cong [where f = "\<lambda>n. 2 powi n"]) simp
  finally have upper: "\<bar>x\<bar> < 2 powi (?k + 1)"
    using x by simp
  have "(2::rat) powi (?k - 1) = 2 powi (bitlen p - 1 - bitlen q)"
    by (rule arg_cong [where f = "\<lambda>n. 2 powi n"]) simp
  also have "\<dots> = 2 powi (bitlen p - 1) / 2 powi bitlen q"
    by (rule power_int_diff) simp
  also have "\<dots> \<le> of_int p / 2 powi bitlen q"
    using P(1) by (simp add: divide_right_mono)
  also have "\<dots> \<le> of_int p / of_int q"
    using Q(2) Ppos Qpos by (intro divide_left_mono mult_pos_pos) simp_all
  finally have lower: "2 powi (?k - 1) \<le> \<bar>x\<bar>"
    using x by simp
  have e: "ilog2 x = (if 2 powi ?k \<le> \<bar>x\<bar> then ?k else ?k - 1)"
    by (simp add: ilog2_def pq)
  show "2 powi ilog2 x \<le> \<bar>x\<bar>"
    using e lower by (simp split: if_splits)
  show "\<bar>x\<bar> < 2 powi (ilog2 x + 1)"
    using e upper by (auto split: if_splits)
qed

lemma round_half_even_error: "\<bar>of_int (round_half_even y) - y\<bar> \<le> 1 / 2"
proof -
  have "of_int \<lfloor>y\<rfloor> \<le> y" "y < of_int \<lfloor>y\<rfloor> + 1"
    by linarith+
  then show ?thesis
    by (auto simp: round_half_even_def Let_def)
qed

lemma round_half_even_ge: "of_int k \<le> y \<Longrightarrow> k \<le> round_half_even y"
proof -
  assume "of_int k \<le> y"
  then have "k \<le> \<lfloor>y\<rfloor>" by (simp add: le_floor_iff)
  then show ?thesis
    by (auto simp: round_half_even_def Let_def)
qed

lemma round_half_even_of_int: "round_half_even (of_int k) = k"
  by (simp add: round_half_even_def)

lemma powi_pos: "(0::rat) < 2 powi n"
  by simp

lemma powi_less_imp: "(2::rat) powi m < 2 powi n \<Longrightarrow> m < n"
proof (rule ccontr)
  assume less: "(2::rat) powi m < 2 powi n" and "\<not> m < n"
  then have "n \<le> m" by simp
  then have "(2::rat) powi n \<le> 2 powi m"
    by (intro power_int_increasing) simp_all
  with less show False by simp
qed

lemma ilog2_ge:
  assumes "x \<noteq> 0" and "2 powi n \<le> \<bar>x\<bar>"
  shows "n \<le> ilog2 x"
proof -
  have "(2::rat) powi n < 2 powi (ilog2 x + 1)"
    using assms(2) ilog2_bounds(2) [OF assms(1)] by (rule le_less_trans)
  then have "n < ilog2 x + 1"
    by (rule powi_less_imp)
  then show ?thesis by simp
qed

lemma ilog2_less:
  assumes "x \<noteq> 0" and "\<bar>x\<bar> < 2 powi n"
  shows "ilog2 x < n"
proof -
  have "(2::rat) powi ilog2 x < 2 powi n"
    using ilog2_bounds(1) [OF assms(1)] assms(2) by (rule le_less_trans)
  then show ?thesis
    by (rule powi_less_imp)
qed

lemma to_double_error:
  assumes "x \<noteq> 0"
  shows "\<bar>to_double x - x\<bar> \<le> 2 powi (max (ilog2 x) (- 1022) - 52) / 2"
proof -
  let ?ulp = "(2::rat) powi (max (ilog2 x) (- 1022) - 52)"
  have pos: "0 < ?ulp" by (rule powi_pos)
  have "to_double x - x = (of_int (round_half_even (x / ?ulp)) - x / ?ulp) * ?ulp"
    using assms pos by (simp add: to_double_def Let_def field_simps)
  then have "\<bar>to_double x - x\<bar> = \<bar>of_int (round_half_even (x / ?ulp)) - x / ?ulp\<bar> * ?ulp"
    using pos by (simp add: abs_mult)
  also have "\<dots> \<le> (1 / 2) * ?ulp"
    using round_half_even_error [of "x / ?ulp"] pos by (intro mult_right_mono) simp_all
  finally show ?thesis by simp
qed

lemma to_double_relative_error:
  assumes "x \<noteq> 0" and "1 / 2 ^ 1022 \<le> \<bar>x\<bar>"
  shows "\<bar>to_double x - x\<bar> \<le> \<bar>x\<bar> * (1 / 2 ^ 53)"
proof -
  have "(2::rat) powi (- 1022) \<le> \<bar>x\<bar>"
    using assms(2) by (simp add: power_int_minus field_simps)
  then have e: "- 1022 \<le> ilog2 x"
    using assms(1) by (intro ilog2_ge)
  have "\<bar>to_double x - x\<bar> \<le> 2 powi (ilog2 x - 52) / 2"
    using to_double_error [OF assms(1)] e by (simp add: max_def)
  also have "\<dots> = 2 powi ilog2 x * (1 / 2 ^ 53)"
    by (simp add: power_int_diff)
  also have "\<dots> \<le> \<bar>x\<bar> * (1 / 2 ^ 53)"
    using ilog2_bounds(1) [OF assms(1)] by (intro mult_right_mono) simp_all
  finally show ?thesis .
qed

lemma to_double_ge_multiple:
  assumes "x \<noteq> 0" and "of_int k * 2 powi (max (ilog2 x) (- 1022) - 52) \<le> x"
  shows "of_int k * 2 powi (max (ilog2 x) (- 1022) - 52) \<le> to_double x"
proof -
  let ?ulp = "(2::rat) powi (max (ilog2 x) (- 1022) - 52)"
  have pos: "0 < ?ulp" by (rule powi_pos)
  have "of_int k \<le> x / ?ulp"
    using assms(2) pos by (simp add: field_simps)
  then have "k \<le> round_half_even (x / ?ulp)"
    by (rule round_half_even_ge)
  then have "(of_int k :: rat) \<le> of_int (round_half_even (x / ?ulp))"
    by simp
  then have "of_int k * ?ulp \<le> of_int (round_half_even (x / ?ulp)) * ?ulp"
    using pos by (intro mult_right_mono) simp_all
  then show ?thesis
    using assms(1) by (simp add: to_double_def Let_def)
qed

lemma to_double_of_int:
  assumes "\<bar>n\<bar> < 2 ^ 53"
  shows "to_double (of_int n) = of_int n"
proof (cases "n = 0")
  case True
  then show ?thesis by (simp add: to_double_def)
next
  case False
  let ?x = "of_int n :: rat"
  have nz: "?x \<noteq> 0" using False by simp
  have "\<bar>?x\<bar> < 2 powi 53"
  proof -
    have "(of_int \<bar>n\<bar> :: rat) < of_int (2 ^ 53)"
      using assms by (simp only: of_int_less_iff)
    then show ?thesis by simp
  qed
  then have hi: "ilog2 ?x < 53"
    using nz by (intro ilog2_less)
  have "(1::rat) \<le> \<bar>?x\<bar>"
  proof -
    have "1 \<le> \<bar>n\<bar>" using False by simp
    then have "(of_int 1 :: rat) \<le> of_int \<bar>n\<bar>" by (simp only: of_int_le_iff)
    then show ?thesis by simp
  qed
  then have "(2::rat) powi 0 \<le> \<bar>?x\<bar>" by simp
  then have lo: "0 \<le> ilog2 ?x"
    using nz by (intro ilog2_ge)
  define s where "s = nat (52 - ilog2 ?x)"
  have ulp: "(2::rat) powi (max (ilog2 ?x) (- 1022) - 52) = 1 / 2 ^ s"
  proof -
    have "max (ilog2 ?x) (- 1022) - 52 = - int s"
      using lo hi by (simp add: s_def max_def)
    then have "(2::rat) powi (max (ilog2 ?x) (- 1022) - 52) = 2 powi (- int s)"
      by (simp only:)
    also have "\<dots> = 1 / 2 ^ s"
      by (simp add: power_int_minus inverse_eq_divide)
    finally show ?thesis .
  qed
  have "?x / (1 / 2 ^ s) = of_int (n * 2 ^ s)"
    by simp
  then have "round_half_even (?x / (1 / 2 ^ s)) = n * 2 ^ s"
    by (simp only: round_half_even_of_int)
  then show ?thesis
    using nz ulp by (simp add: to_double_def Let_def)
qed

lemma amountTolerance_value: "amountTolerance = 3602879701896397 / 72057594037927936"
  by code_simp

lemma tolerance_of_whole:
  assumes "1 \<le> M" and "M \<le> 10 ^ 12"
  defines "x \<equiv> (of_int M :: rat) * amountTolerance"
  shows "x \<noteq> 0" and "of_int M / 20 < x" and "x < of_int M / 20 + 1 / 2 ^ 18"
    and "- 5 \<le> ilog2 x" and "ilog2 x < 36"
proof -
  have M1: "(1::rat) \<le> of_int M"
    using assms(1) by simp
  have M2: "(of_int M :: rat) \<le> 10 ^ 12"
  proof -
    have "(of_int M :: rat) \<le> of_int (10 ^ 12)"
      using assms(2) by (simp only: of_int_le_iff)
    then show ?thesis by simp
  qed
  have x: "x = of_int M / 20 + of_int M / 360287970189639680"
    by (simp add: x_def amountTolerance_value field_simps)
  show low: "of_int M / 20 < x"
    using M1 by (simp add: x)
  have "of_int M / 360287970189639680 < (1::rat) / 2 ^ 18"
    using M2 by simp
  then show up: "x < of_int M / 20 + 1 / 2 ^ 18"
    by (simp add: x)
  show nz: "x \<noteq> 0"
    using low M1 by auto
  have "(2::rat) powi (- 5) \<le> \<bar>x\<bar>"
    using low M1 by simp
  then show "- 5 \<le> ilog2 x"
    using nz by (intro ilog2_ge)
  have "\<bar>x\<bar> < 2 powi 36"
    using up low M1 M2 by simp
  then show "ilog2 x < 36"
    using nz by (intro ilog2_less)
qed

lemma isAmountMatch_whole:
  assumes "0 \<le> m" and "m \<le> 10 ^ 12" and "0 \<le> n" and "n \<le> 10 ^ 12"
  shows "isAmountMatch (of_int m) (of_int n) \<longleftrightarrow> 20 * \<bar>m - n\<bar> \<le> max m n"
proof -
  let ?M = "max m n"
  let ?d = "\<bar>m - n\<bar>"
  have "\<bar>m - n\<bar> < 2 ^ 53"
    using assms by simp
  then have "to_double (of_int (m - n)) = of_int (m - n)"
    by (rule to_double_of_int)
  then have diff: "\<bar>to_double (of_int m - of_int n)\<bar> = (of_int ?d :: rat)"
    by simp
  have mx: "max (of_int m) (of_int n) = (of_int ?M :: rat)"
    by (simp add: max_def)
  have unfold: "isAmountMatch (of_int m) (of_int n)
      \<longleftrightarrow> (of_int ?d :: rat) \<le> to_double (of_int ?M * amountTolerance)"
    unfolding isAmountMatch_def Let_def diff mx ..
  show ?thesis
  proof (cases "?M = 0")
    case True
    then have "m = 0" "n = 0"
      using assms by (simp_all add: max_def split: if_splits)
    then show ?thesis
      by (simp add: isAmountMatch_def to_double_def)
  next
    case False
    then have M: "1 \<le> ?M" "?M \<le> 10 ^ 12"
      using assms by simp_all
    let ?x = "(of_int ?M :: rat) * amountTolerance"
    note t = tolerance_of_whole [OF M]
    have e: "max (ilog2 ?x) (- 1022) = ilog2 ?x"
      using t(4) by simp
    show ?thesis
    proof (cases "20 * ?d \<le> ?M")
      case True
      define s where "s = nat (52 - ilog2 ?x)"
      have "ilog2 ?x - 52 = - int s"
        using t(5) by (simp add: s_def)
      then have "(2::rat) powi (ilog2 ?x - 52) = 2 powi (- int s)"
        by (simp only:)
      also have "\<dots> = 1 / 2 ^ s"
        by (simp add: power_int_minus inverse_eq_divide)
      finally have ulp: "(2::rat) powi (max (ilog2 ?x) (- 1022) - 52) = 1 / 2 ^ s"
        by (simp only: e)
      have k: "of_int (?d * 2 ^ s) * (2::rat) powi (max (ilog2 ?x) (- 1022) - 52) = of_int ?d"
        by (simp add: ulp)
      have "(of_int (20 * ?d) :: rat) \<le> of_int ?M"
        using True by (simp only: of_int_le_iff)
      then have "(of_int ?d :: rat) \<le> of_int ?M / 20"
        by simp
      then have "(of_int ?d :: rat) \<le> ?x"
        using t(2) by simp
      then have "of_int (?d * 2 ^ s) * (2::rat) powi (max (ilog2 ?x) (- 1022) - 52) \<le> ?x"
        by (simp only: k)
      then have "of_int (?d * 2 ^ s) * (2::rat) powi (max (ilog2 ?x) (- 1022) - 52)
          \<le> to_double ?x"
        using t(1) by (intro to_double_ge_multiple)
      then have "(of_int ?d :: rat) \<le> to_double ?x"
        by (simp only: k)
      with True unfold show ?thesis by simp
    next
      case False
      then have "?M + 1 \<le> 20 * ?d" by simp
      then have "(of_int (?M + 1) :: rat) \<le> of_int (20 * ?d)"
        by (simp only: of_int_le_iff)
      then have d: "of_int ?M / 20 + 1 / 20 \<le> (of_int ?d :: rat)"
        by simp
      have "(2::rat) powi (ilog2 ?x - 52) \<le> 2 powi (- 17)"
        using t(5) by (intro power_int_increasing) simp_all
      then have ulp: "(2::rat) powi (max (ilog2 ?x) (- 1022) - 52) / 2 \<le> 1 / 2 ^ 18"
        by (simp add: e)
      have "\<bar>to_double ?x - ?x\<bar> \<le> 1 / 2 ^ 18"
        using to_double_error [OF t(1)] ulp by (rule order_trans)
      then have "to_double ?x \<le> ?x + 1 / 2 ^ 18"
        by linarith
      also have "\<dots> < of_int ?M / 20 + 1 / 2 ^ 18 + 1 / 2 ^ 18"
        using t(3) by simp
      also have "\<dots> < of_int ?M / 20 + 1 / 20"
        by simp
      finally have "to_double ?x < of_int ?d"
        using d by simp
      with False unfold show ?thesis by simp
    qed
  qed
qed

lemma to_double_tiny:
  assumes "x \<noteq> 0" and "\<bar>x\<bar> < 1 / 2 ^ 1022"
  shows "\<bar>to_double x - x\<bar> \<le> 1 / 2 ^ 1075"
proof -
  have "\<bar>x\<bar> < 2 powi (- 1022)"
    using assms(2) by (simp add: power_int_minus inverse_eq_divide)
  then have "ilog2 x < - 1022"
    using assms(1) by (intro ilog2_less)
  then have "max (ilog2 x) (- 1022) = - 1022"
    by simp
  then have "\<bar>to_double x - x\<bar> \<le> 2 powi (- 1022 - 52) / 2"
    using to_double_error [OF assms(1)] by simp
  also have "\<dots> = 1 / 2 ^ 1075"
    by (simp add: power_int_minus inverse_eq_divide)
  finally show ?thesis .
qed

lemma tolerance_of_amount:
  assumes "1 / 2 ^ 1000 \<le> M"
  defines "x \<equiv> M * amountTolerance"
  shows "1 / 2 ^ 1006 \<le> to_double x"
    and "x * (1 - 1 / 2 ^ 53) \<le> to_double x"
    and "to_double x \<le> x * (1 + 1 / 2 ^ 53)"
proof -
  have Mpos: "0 < M"
    using assms(1) by (rule less_le_trans [rotated]) simp
  have c: "1 / 2 ^ 5 \<le> amountTolerance"
    by (simp add: amountTolerance_value)
  have "(1 / 2 ^ 1000) * (1 / 2 ^ 5) \<le> M * amountTolerance"
    using assms(1) c by (intro mult_mono) simp_all
  then have x: "1 / 2 ^ 1005 \<le> x"
    by (simp add: x_def)
  then have xpos: "0 < x"
    by (rule less_le_trans [rotated]) simp
  have nz: "x \<noteq> 0"
    using xpos by simp
  have "(1::rat) / 2 ^ 1022 \<le> 1 / 2 ^ 1005"
    by simp
  then have "1 / 2 ^ 1022 \<le> \<bar>x\<bar>"
    using x xpos by simp
  then have err: "\<bar>to_double x - x\<bar> \<le> x * (1 / 2 ^ 53)"
    using to_double_relative_error [OF nz] xpos by simp
  define r where "r = x * (1 / 2 ^ 53)"
  have err': "\<bar>to_double x - x\<bar> \<le> r"
    using err by (simp only: r_def)
  have "x * (1 - 1 / 2 ^ 53) = x - r"
    by (simp only: r_def right_diff_distrib mult_1_right)
  also have "\<dots> \<le> to_double x"
    using err' by linarith
  finally show lower: "x * (1 - 1 / 2 ^ 53) \<le> to_double x" .
  have "to_double x \<le> x + r"
    using err' by linarith
  also have "\<dots> = x * (1 + 1 / 2 ^ 53)"
    by (simp only: r_def distrib_left mult_1_right)
  finally show "to_double x \<le> x * (1 + 1 / 2 ^ 53)" .
  have "(1 / 2 ^ 1005) * (1 / 2) \<le> x * (1 - 1 / 2 ^ 53)"
    using x by (intro mult_mono) simp_all
  then have "1 / 2 ^ 1006 \<le> x * (1 - 1 / 2 ^ 53)"
    by simp
  then show "1 / 2 ^ 1006 \<le> to_double x"
    using lower by (rule order_trans)
qed

lemma difference_upper: "\<bar>to_double y\<bar> \<le> \<bar>y\<bar> * (1 + 1 / 2 ^ 53) + 1 / 2 ^ 1075"
proof (cases "y = 0")
  case True
  then show ?thesis by (simp add: to_double_def)
next
  case False
  define r where "r = \<bar>y\<bar> * (1 / 2 ^ 53)"
  have r: "0 \<le> r" by (simp add: r_def)
  have "\<bar>to_double y - y\<bar> \<le> r + 1 / 2 ^ 1075"
  proof (cases "1 / 2 ^ 1022 \<le> \<bar>y\<bar>")
    case True
    then have "\<bar>to_double y - y\<bar> \<le> r"
      using to_double_relative_error [OF False] by (simp only: r_def)
    then show ?thesis by simp
  next
    case False
    then have "\<bar>y\<bar> < 1 / 2 ^ 1022" by simp
    then have "\<bar>to_double y - y\<bar> \<le> 1 / 2 ^ 1075"
      using \<open>y \<noteq> 0\<close> by (intro to_double_tiny)
    then show ?thesis using r by linarith
  qed
  then have "\<bar>to_double y\<bar> \<le> \<bar>y\<bar> + r + 1 / 2 ^ 1075"
    by linarith
  also have "\<bar>y\<bar> + r = \<bar>y\<bar> * (1 + 1 / 2 ^ 53)"
    by (simp only: r_def distrib_left mult_1_right)
  finally show ?thesis .
qed

lemma difference_lower:
  assumes "1 / 2 ^ 1022 \<le> \<bar>y\<bar>"
  shows "\<bar>y\<bar> * (1 - 1 / 2 ^ 53) \<le> \<bar>to_double y\<bar>"
proof -
  have nz: "y \<noteq> 0"
  proof
    assume "y = 0"
    with assms show False by simp
  qed
  define r where "r = \<bar>y\<bar> * (1 / 2 ^ 53)"
  have "\<bar>to_double y - y\<bar> \<le> r"
    using to_double_relative_error [OF nz assms] by (simp only: r_def)
  then have "\<bar>y\<bar> - r \<le> \<bar>to_double y\<bar>"
    by linarith
  moreover have "\<bar>y\<bar> * (1 - 1 / 2 ^ 53) = \<bar>y\<bar> - r"
    by (simp only: r_def right_diff_distrib mult_1_right)
  ultimately show ?thesis by simp
qed

lemma isAmountMatch_inside:
  assumes "1 / 2 ^ 1000 \<le> max a1 a2"
      and "\<bar>a1 - a2\<bar> \<le> max a1 a2 * (5 / 100) * (1 - 1 / 2 ^ 50)"
  shows "isAmountMatch a1 a2"
proof -
  define M where "M = max a1 a2"
  define lo where "lo = (5 / 100 :: rat) * (1 - 1 / 2 ^ 50)"
  define up where "up = (1 :: rat) + 1 / 2 ^ 53"
  define dn where "dn = (1 :: rat) - 1 / 2 ^ 53"
  have M: "1 / 2 ^ 1000 \<le> M"
    using assms(1) by (simp only: M_def)
  have Mpos: "0 \<le> M"
    using M by (rule order_trans [rotated]) simp
  have d: "\<bar>a1 - a2\<bar> \<le> M * lo"
    using assms(2) by (simp only: M_def lo_def mult.assoc)
  have K: "lo * up + 1 / 2 ^ 56 \<le> amountTolerance * dn"
    by (simp add: lo_def up_def dn_def amountTolerance_value)
  have up: "0 \<le> up"
    by (simp add: up_def)
  have "(1 / 2 ^ 1000) * (1 / 2 ^ 56) \<le> M * (1 / 2 ^ 56)"
    using M by (intro mult_right_mono) simp_all
  moreover have "(1 :: rat) / 2 ^ 1075 \<le> (1 / 2 ^ 1000) * (1 / 2 ^ 56)"
    by simp
  ultimately have tiny: "1 / 2 ^ 1075 \<le> M * (1 / 2 ^ 56)"
    by (rule order_trans [rotated])
  have "\<bar>to_double (a1 - a2)\<bar> \<le> \<bar>a1 - a2\<bar> * up + 1 / 2 ^ 1075"
    using difference_upper [of "a1 - a2"] by (simp only: up_def)
  also have "\<dots> \<le> M * lo * up + 1 / 2 ^ 1075"
    using d up by (intro add_right_mono mult_right_mono)
  also have "\<dots> \<le> M * lo * up + M * (1 / 2 ^ 56)"
    using tiny by (intro add_left_mono)
  also have "\<dots> = M * (lo * up + 1 / 2 ^ 56)"
    by (simp only: distrib_left mult.assoc)
  also have "\<dots> \<le> M * (amountTolerance * dn)"
    using K Mpos by (intro mult_left_mono)
  also have "\<dots> = M * amountTolerance * dn"
    by (simp only: mult.assoc)
  also have "\<dots> \<le> to_double (M * amountTolerance)"
    using tolerance_of_amount(2) [OF M] by (simp only: dn_def)
  finally show ?thesis
    by (simp only: isAmountMatch_def Let_def M_def)
qed

lemma isAmountMatch_outside:
  assumes "1 / 2 ^ 1000 \<le> max a1 a2"
      and "max a1 a2 * (5 / 100) * (1 + 1 / 2 ^ 50) \<le> \<bar>a1 - a2\<bar>"
  shows "\<not> isAmountMatch a1 a2"
proof -
  define M where "M = max a1 a2"
  define hi where "hi = (5 / 100 :: rat) * (1 + 1 / 2 ^ 50)"
  define up where "up = (1 :: rat) + 1 / 2 ^ 53"
  define dn where "dn = (1 :: rat) - 1 / 2 ^ 53"
  have M: "1 / 2 ^ 1000 \<le> M"
    using assms(1) by (simp only: M_def)
  have Mpos: "0 < M"
    using M by (rule less_le_trans [rotated]) simp
  have d: "M * hi \<le> \<bar>a1 - a2\<bar>"
    using assms(2) by (simp only: M_def hi_def mult.assoc)
  have K: "amountTolerance * up < hi * dn"
    by (simp add: hi_def up_def dn_def amountTolerance_value)
  have dn: "0 \<le> dn"
    by (simp add: dn_def)
  have "(1 / 2 ^ 1000) * (1 / 2 ^ 5) \<le> M * hi"
    using M by (intro mult_mono) (simp_all add: hi_def)
  moreover have "(1 :: rat) / 2 ^ 1022 \<le> (1 / 2 ^ 1000) * (1 / 2 ^ 5)"
    by simp
  ultimately have "1 / 2 ^ 1022 \<le> M * hi"
    by (rule order_trans [rotated])
  then have big: "1 / 2 ^ 1022 \<le> \<bar>a1 - a2\<bar>"
    using d by (rule order_trans)
  have "to_double (M * amountTolerance) \<le> M * amountTolerance * up"
    using tolerance_of_amount(3) [OF M] by (simp only: up_def)
  also have "\<dots> = M * (amountTolerance * up)"
    by (simp only: mult.assoc)
  also have "\<dots> < M * (hi * dn)"
    using K Mpos by (intro mult_strict_left_mono)
  also have "\<dots> = M * hi * dn"
    by (simp only: mult.assoc)
  also have "\<dots> \<le> \<bar>a1 - a2\<bar> * dn"
    using d dn by (intro mult_right_mono)
  also have "\<dots> \<le> \<bar>to_double (a1 - a2)\<bar>"
    using difference_lower [OF big] by (simp only: dn_def)
  finally have "to_double (M * amountTolerance) < \<bar>to_double (a1 - a2)\<bar>" .
  then show ?thesis
    by (simp add: isAmountMatch_def Let_def M_def)
qed

text \<open>
  C6 (as the doubles decide). For whole amounts from 0 to \<open>10 ^ 12\<close> the amount test
  accepts exactly when the difference is at most 5 percent of the larger amount. For
  amounts in general, the larger one at least \<open>1 / 2 ^ 1000\<close>, it accepts when the
  difference is at most 5 percent of the larger amount less one part in \<open>2 ^ 50\<close> and
  rejects when it is at least 5 percent and one part in \<open>2 ^ 50\<close> more; in between the
  rounding of the difference and of the product decides. 1000 against 1049 is accepted,
  1000 against 1060 is rejected.
\<close>

theorem isAmountMatch_five_percent_rounded:
  "(0 \<le> m \<and> m \<le> 10 ^ 12 \<and> 0 \<le> n \<and> n \<le> 10 ^ 12 \<longrightarrow>
      (isAmountMatch (of_int m) (of_int n) \<longleftrightarrow> 20 * \<bar>m - n\<bar> \<le> max m n))
   \<and> (1 / 2 ^ 1000 \<le> max a1 a2
        \<and> \<bar>a1 - a2\<bar> \<le> max a1 a2 * (5 / 100) * (1 - 1 / 2 ^ 50) \<longrightarrow>
      isAmountMatch a1 a2)
   \<and> (1 / 2 ^ 1000 \<le> max a1 a2
        \<and> max a1 a2 * (5 / 100) * (1 + 1 / 2 ^ 50) \<le> \<bar>a1 - a2\<bar> \<longrightarrow>
      \<not> isAmountMatch a1 a2)
   \<and> isAmountMatch 1000 1049 \<and> \<not> isAmountMatch 1000 1060"
proof -
  have "isAmountMatch (of_int 1000) (of_int 1049)"
    by (subst isAmountMatch_whole) simp_all
  then have in_example: "isAmountMatch 1000 1049"
    by simp
  have "\<not> isAmountMatch (of_int 1000) (of_int 1060)"
    by (subst isAmountMatch_whole) simp_all
  then have out_example: "\<not> isAmountMatch 1000 1060"
    by simp
  show ?thesis
    using isAmountMatch_whole [of m n] isAmountMatch_inside [of a1 a2]
      isAmountMatch_outside [of a1 a2] in_example out_example
    by blast
qed

theorem isAmountMatch_five_percent_rounded_witness:
  "isAmountMatch (of_int 250) (of_int 252) \<and> \<not> isAmountMatch (of_int 250) (of_int 300)
   \<and> isAmountMatch (505 / 2) 250 \<and> \<not> isAmountMatch (505 / 2) 300"
proof -
  have whole: "(0::int) \<le> 250 \<and> (250::int) \<le> 10 ^ 12 \<and> (0::int) \<le> 252 \<and> (252::int) \<le> 10 ^ 12"
    "(0::int) \<le> 250 \<and> (250::int) \<le> 10 ^ 12 \<and> (0::int) \<le> 300 \<and> (300::int) \<le> 10 ^ 12"
    by simp_all
  have inside: "1 / 2 ^ 1000 \<le> max (505 / 2) (250 :: rat)
      \<and> \<bar>505 / 2 - 250\<bar> \<le> max (505 / 2) (250 :: rat) * (5 / 100) * (1 - 1 / 2 ^ 50)"
    by simp
  have outside: "1 / 2 ^ 1000 \<le> max (505 / 2) (300 :: rat)
      \<and> max (505 / 2) (300 :: rat) * (5 / 100) * (1 + 1 / 2 ^ 50) \<le> \<bar>505 / 2 - 300\<bar>"
    by simp
  have a: "isAmountMatch (of_int 250) (of_int 252)"
    using isAmountMatch_five_percent_rounded [of 250 252, THEN conjunct1, THEN mp, OF whole(1)]
    by simp
  have b: "\<not> isAmountMatch (of_int 250) (of_int 300)"
    using isAmountMatch_five_percent_rounded [of 250 300, THEN conjunct1, THEN mp, OF whole(2)]
    by simp
  have c: "isAmountMatch (505 / 2) 250"
    using isAmountMatch_five_percent_rounded [of _ _ "505 / 2" 250, THEN conjunct2,
        THEN conjunct1, THEN mp, OF inside] .
  have d: "\<not> isAmountMatch (505 / 2) 300"
    using isAmountMatch_five_percent_rounded [of _ _ "505 / 2" 300, THEN conjunct2,
        THEN conjunct2, THEN conjunct1, THEN mp, OF outside] .
  from a b c d show ?thesis by (intro conjI)
qed

text \<open>
  C6 as stated fails: 7999999999999999 and 7599999999999999 are doubles, they differ by
  more than 5 percent of the larger one, and the test accepts them, because the product
  with \<open>0.05\<close> rounds up to 400000000000000.
\<close>

theorem isAmountMatch_rounding_counterexample:
  "to_double 7999999999999999 = 7999999999999999
   \<and> to_double 7599999999999999 = 7599999999999999
   \<and> isAmountMatch 7999999999999999 7599999999999999
   \<and> \<not> (\<bar>7999999999999999 - 7599999999999999\<bar>
          \<le> max 7999999999999999 7599999999999999 * (5 / 100 :: rat))"
  by code_simp

lemma isTimeMatch_precise:
  assumes "hasPreciseTime tz (Some t1)" and "hasPreciseTime tz (Some t2)"
  shows "isTimeMatch tz (Some t1) (Some t2) \<longleftrightarrow> \<bar>t1 - t2\<bar> \<le> 3600000"
proof -
  have "((of_int \<bar>t1 - t2\<bar> :: rat) / (1000 * 60 * 60) \<le> 1)
      \<longleftrightarrow> (of_int \<bar>t1 - t2\<bar> \<le> (of_int 3600000 :: rat))"
    by (simp add: divide_le_eq)
  also have "\<dots> \<longleftrightarrow> \<bar>t1 - t2\<bar> \<le> 3600000"
    by (simp only: of_int_le_iff)
  finally show ?thesis
    using assms by (simp add: isTimeMatch_def timeWindowHours_def)
qed

text \<open>
  C5. When one of two timestamps is date-only, \<open>isTimeMatch\<close> subtracts the days of the
  month, not the elapsed time. 31 January and 1 February 2025, both at midnight, are one
  day apart and do not match; 15 January and 15 February 2025 are 31 days apart and match.
\<close>

theorem isTimeMatch_month_boundary:
  "\<not> hasPreciseTime 0 (Some (utc 2025 1 31 0 0 0))
   \<and> \<not> hasPreciseTime 0 (Some (utc 2025 2 1 0 0 0))
   \<and> \<bar>utc 2025 2 1 0 0 0 - utc 2025 1 31 0 0 0\<bar> = 1 * msPerDay
   \<and> \<not> isTimeMatch 0 (Some (utc 2025 1 31 0 0 0)) (Some (utc 2025 2 1 0 0 0))
   \<and> \<bar>utc 2025 2 15 0 0 0 - utc 2025 1 15 0 0 0\<bar> = 31 * msPerDay
   \<and> isTimeMatch 0 (Some (utc 2025 1 15 0 0 0)) (Some (utc 2025 2 15 0 0 0))"
  by code_simp

lemma midnight_is_date_only:
  assumes "getHours tz t = 0" and "getMinutes tz t = 0" and "getSeconds tz t = 0"
  shows "\<not> hasPreciseTime tz (Some t)"
    and "hasPreciseTime tz (Some u) \<Longrightarrow> chooseBetterTimestamp tz (Some t) (Some u) = Some u"
    and "hasPreciseTime tz (Some u) \<Longrightarrow> chooseBetterTimestamp tz (Some u) (Some t) = Some u"
  using assms by (simp_all add: hasPreciseTime_def chooseBetterTimestamp_def)

text \<open>
  C10. A purchase at exactly midnight of 1 February 2025 has hours, minutes and seconds
  zero and is classified as date-only; the search window for it is one day to either
  side, and a timestamp with a time of day is preferred to it when the two are merged.
  A stored record of 31 January, 23:59:30, lies thirty seconds before it and inside that
  window, and is not matched: the day branch compares the days of the month, 1 and 31.
  The candidate search returns nothing for it.
\<close>

theorem midnight_purchase_at_month_end:
  "getHours 0 (utc 2025 2 1 0 0 0) = 0 \<and> getMinutes 0 (utc 2025 2 1 0 0 0) = 0
   \<and> getSeconds 0 (utc 2025 2 1 0 0 0) = 0
   \<and> \<not> hasPreciseTime 0 (Some (utc 2025 2 1 0 0 0))
   \<and> hasPreciseTime 0 (Some (utc 2025 1 31 23 59 30))
   \<and> \<bar>utc 2025 2 1 0 0 0 - utc 2025 1 31 23 59 30\<bar> = 30000
   \<and> calculateTimeWindow 0 (Some (utc 2025 2 1 0 0 0))
       = Inr (utc 2025 1 31 0 0 0, utc 2025 2 2 0 0 0)
   \<and> utc 2025 1 31 0 0 0 \<le> utc 2025 1 31 23 59 30
   \<and> utc 2025 1 31 23 59 30 \<le> utc 2025 2 2 0 0 0
   \<and> \<not> isTimeMatch 0 (Some (utc 2025 2 1 0 0 0)) (Some (utc 2025 1 31 23 59 30))
   \<and> \<not> isTimeMatch 0 (Some (utc 2025 1 31 23 59 30)) (Some (utc 2025 2 1 0 0 0))
   \<and> isAmountMatch (amount ex_midnight_purchase) (amount ex_late_evening)
   \<and> findPotentialMatches ex_getDocs_evening 0 ex_midnight_purchase ''u1'' = Inr []
   \<and> chooseBetterTimestamp 0 (Some (utc 2025 2 1 0 0 0)) (Some (utc 2025 1 31 23 59 30))
       = Some (utc 2025 1 31 23 59 30)"
  by code_simp

subsection \<open>Threshold and selection\<close>

lemma zip_nth_mem: "i < length xs \<Longrightarrow> i < length ys \<Longrightarrow> (xs ! i, ys ! i) \<in> set (zip xs ys)"
  by (metis in_set_zip fst_conv snd_conv)

lemma threshold_seventy_merge:
  assumes pm: "findPotentialMatches getDocs tz new uid = Inr pm"
      and cs: "analyzeMultipleCorrelationsWithGemini callGemini parseJson new pm = Inr cs"
  shows "((\<forall>(m, c) \<in> set (zip pm cs). is_correlated c \<longrightarrow> confidence c \<le> 69) \<longrightarrow>
            findCorrelations getDocs callGemini parseJson tz now uf df st new uid inp
              = (Inr None, st))
       \<and> ((\<exists>(m, c) \<in> set (zip pm cs). is_correlated c \<and> 70 \<le> confidence c) \<longrightarrow>
            (\<exists>m c. (m, c) \<in> set (zip pm cs) \<and> is_correlated c \<and> 70 \<le> confidence c
               \<and> (\<forall>(m', c') \<in> set (zip pm cs). is_correlated c' \<longrightarrow> confidence c' \<le> confidence c)
               \<and> findCorrelations getDocs callGemini parseJson tz now uf df st new uid inp
                  = (case mergeTransactions tz now uf df st m new inp c of
                       (Inl e, st') \<Rightarrow> (Inr None, st')
                     | (Inr merged, st') \<Rightarrow>
                         (Inr (Some \<lparr>action = ''merged'', existing_transaction_id = tx_id m,
                                     result_confidence = confidence c,
                                     result_correlation_type = correlation_type c\<rparr>), st'))))"
proof -
  obtain b' k' where run: "best_loop pm cs (None, 0) = (b', k')"
    by (cases "best_loop pm cs (None, 0)") auto
  have unfold: "findCorrelations getDocs callGemini parseJson tz now uf df st new uid inp =
      (if length pm = 0 then (Inr None, st)
       else (case (b', k') of
               (None, bestConfidence) \<Rightarrow> (Inr None, st)
             | (Some (candidate, analysis), bestConfidence) \<Rightarrow>
                 (if bestConfidence \<ge> 70
                  then (case mergeTransactions tz now uf df st candidate new inp analysis of
                          (Inl e, st') \<Rightarrow> (Inr None, st')
                        | (Inr merged, st') \<Rightarrow>
                            (Inr (Some \<lparr>action = ''merged'',
                                        existing_transaction_id = tx_id candidate,
                                        result_confidence = bestConfidence,
                                        result_correlation_type = correlation_type analysis\<rparr>),
                             st'))
                  else (Inr None, st))))"
    by (simp add: findCorrelations_def pm cs run)
  from best_loop_choice [OF run]
  consider (none) "b' = None" "k' = 0"
    | (some) j where "j < length pm" "j < length cs" "b' = Some (pm ! j, cs ! j)"
        "is_correlated (cs ! j)" "confidence (cs ! j) = k'"
    by auto
  then show ?thesis
  proof cases
    case none
    have "\<not> (\<exists>(m, c) \<in> set (zip pm cs). is_correlated c \<and> 70 \<le> confidence c)"
      using best_loop_upper [OF run] none(2) by fastforce
    moreover have "findCorrelations getDocs callGemini parseJson tz now uf df st new uid inp
        = (Inr None, st)"
      using unfold none by simp
    ultimately show ?thesis by simp
  next
    case some
    have mem: "(pm ! j, cs ! j) \<in> set (zip pm cs)"
      using some(1,2) by (rule zip_nth_mem)
    have ne: "length pm \<noteq> 0"
      using some(1) by auto
    have upper: "\<forall>(m', c') \<in> set (zip pm cs). is_correlated c' \<longrightarrow> confidence c' \<le> k'"
      using best_loop_upper [OF run] by auto
    show ?thesis
    proof (cases "70 \<le> k'")
      case True
      have "findCorrelations getDocs callGemini parseJson tz now uf df st new uid inp
          = (case mergeTransactions tz now uf df st (pm ! j) new inp (cs ! j) of
               (Inl e, st') \<Rightarrow> (Inr None, st')
             | (Inr merged, st') \<Rightarrow>
                 (Inr (Some \<lparr>action = ''merged'', existing_transaction_id = tx_id (pm ! j),
                             result_confidence = confidence (cs ! j),
                             result_correlation_type = correlation_type (cs ! j)\<rparr>), st'))"
        using unfold ne some(3) True unfolding some(5) [symmetric] by simp
      moreover have "\<not> (\<forall>(m, c) \<in> set (zip pm cs). is_correlated c \<longrightarrow> confidence c \<le> 69)"
        using mem some(4,5) True by fastforce
      ultimately show ?thesis
        using mem some(4,5) True upper by blast
    next
      case False
      have "\<not> (\<exists>(m, c) \<in> set (zip pm cs). is_correlated c \<and> 70 \<le> confidence c)"
        using upper False by fastforce
      moreover have "findCorrelations getDocs callGemini parseJson tz now uf df st new uid inp
          = (Inr None, st)"
        using unfold ne some(3) False by simp
      ultimately show ?thesis by simp
    qed
  qed
qed

lemma ex_matches:
  "findPotentialMatches ex_getDocs 0 ex_new ''u1'' = Inr [ex_existing]"
  by code_simp

lemma ex_analysis:
  "kind \<noteq> [] \<Longrightarrow> analyzeMultipleCorrelationsWithGemini ex_callGemini (ex_parseJson kind conf)
     ex_new [ex_existing] = Inr [ex_verdict kind conf]"
  by (simp add: analyzeMultipleCorrelationsWithGemini_def parseMultipleCorrelationResponse_def
      ex_reply_def ex_verdict_def set_defaults_def truthy_def ex_callGemini_def ex_parseJson_def)

lemma candidates_have_other_id:
  assumes "findPotentialMatches getDocs tz new uid = Inr pm" and "m \<in> set pm"
  shows "tx_id m \<noteq> tx_id new"
  using assms
  by (auto simp: findPotentialMatches_def split: sum.splits prod.splits)

lemma merge_effect:
  "(case mergeTransactions tz now uf df st m new inp c of
      (Inl e, st') \<Rightarrow> (Inr None, st')
    | (Inr merged, st') \<Rightarrow>
        (Inr (Some \<lparr>action = ''merged'', existing_transaction_id = tx_id m,
                    result_confidence = confidence c,
                    result_correlation_type = correlation_type c\<rparr>), st'))
   = (case uf of
        Some msg \<Rightarrow> (Inr None, st)
      | None \<Rightarrow>
          (case tx_id m of
             None \<Rightarrow> (Inr None, st)
           | Some k \<Rightarrow>
               (case st k of
                  None \<Rightarrow> (Inr None, st)
                | Some doc \<Rightarrow>
                    (let winner = doc
                           \<lparr>sources := Some
                              ((case sources m of None \<Rightarrow> [] | Some ss \<Rightarrow> ss)
                               @ [\<lparr>input_type = input_data_type inp,
                                   uri = or_string (metadata_uri inp) None,
                                   added_at = Some now\<rparr>]),
                            merchant := or_string (merchant m) (merchant new),
                            amount := or_number (amount m) (amount new),
                            currency := or_string (currency m) (currency new),
                            category := or_string (category m) (category new),
                            items := Some (mergeItems (items m) (items new)),
                            timestamp :=
                              chooseBetterTimestamp tz (timestamp m) (timestamp new),
                            correlation_info := Some
                              \<lparr>merged_at = now,
                               info_correlation_type = correlation_type c,
                               info_confidence = confidence c,
                               info_reason = reason c,
                               merged_transaction_id =
                                 (if truthy (tx_id new) then the (tx_id new)
                                  else ''unknown'')\<rparr>,
                            updated_at := Some now\<rparr>;
                         merged = \<lparr>action = ''merged'',
                            existing_transaction_id = tx_id m,
                            result_confidence = confidence c,
                            result_correlation_type = correlation_type c\<rparr>
                     in if truthy (tx_id new)
                        then (case df of
                                Some msg \<Rightarrow> (Inr None, st(k \<mapsto> winner))
                              | None \<Rightarrow>
                                  (Inr (Some merged),
                                   (st(k \<mapsto> winner))(the (tx_id new) := None)))
                        else (Inr (Some merged), st(k \<mapsto> winner))))))"
  by (simp add: mergeTransactions_def updateTransaction_def deleteDuplicateTransaction_def
      apply_update_def mergedData_def Let_def split: option.splits)

text \<open>
  C3. The threshold is exactly 70. When every correlated verdict paired with a candidate
  has confidence 69 or less, \<open>findCorrelations\<close> answers \<open>null\<close> and leaves the store
  as it is. When some correlated verdict has confidence 70 or more, the merge is run
  against a candidate whose verdict is correlated and has the highest confidence: unless
  the store refuses the update, the stored document of that candidate takes the merged
  fields and one more source entry, then the new transaction's document is deleted when
  it has an id, and the answer is \<open>merged\<close> with that candidate's id and confidence.
  The answer is \<open>null\<close> when a store call fails; a failed deletion leaves the update
  in place.
\<close>

theorem threshold_seventy:
  assumes pm: "findPotentialMatches getDocs tz new uid = Inr pm"
      and cs: "analyzeMultipleCorrelationsWithGemini callGemini parseJson new pm = Inr cs"
  shows "((\<forall>(m, c) \<in> set (zip pm cs). is_correlated c \<longrightarrow> confidence c \<le> 69) \<longrightarrow>
            findCorrelations getDocs callGemini parseJson tz now uf df st new uid inp
              = (Inr None, st))
       \<and> ((\<exists>(m, c) \<in> set (zip pm cs). is_correlated c \<and> 70 \<le> confidence c) \<longrightarrow>
            (\<exists>m c. (m, c) \<in> set (zip pm cs) \<and> is_correlated c \<and> 70 \<le> confidence c
               \<and> (\<forall>(m', c') \<in> set (zip pm cs). is_correlated c' \<longrightarrow> confidence c' \<le> confidence c)
               \<and> findCorrelations getDocs callGemini parseJson tz now uf df st new uid inp
                  = (case mergeTransactions tz now uf df st m new inp c of
                       (Inl e, st') \<Rightarrow> (Inr None, st')
                     | (Inr merged, st') \<Rightarrow>
                         (Inr (Some \<lparr>action = ''merged'', existing_transaction_id = tx_id m,
                                     result_confidence = confidence c,
                                     result_correlation_type = correlation_type c\<rparr>), st'))
               \<and> tx_id m \<noteq> tx_id new
               \<and> findCorrelations getDocs callGemini parseJson tz now uf df st new uid inp
                  = (case uf of
                       Some msg \<Rightarrow> (Inr None, st)
                     | None \<Rightarrow>
                         (case tx_id m of
                            None \<Rightarrow> (Inr None, st)
                          | Some k \<Rightarrow>
                              (case st k of
                                 None \<Rightarrow> (Inr None, st)
                               | Some doc \<Rightarrow>
                                   (let winner = doc
                                          \<lparr>sources := Some
                                             ((case sources m of None \<Rightarrow> [] | Some ss \<Rightarrow> ss)
                                              @ [\<lparr>input_type = input_data_type inp,
                                                  uri = or_string (metadata_uri inp) None,
                                                  added_at = Some now\<rparr>]),
                                           merchant := or_string (merchant m) (merchant new),
                                           amount := or_number (amount m) (amount new),
                                           currency := or_string (currency m) (currency new),
                                           category := or_string (category m) (category new),
                                           items := Some (mergeItems (items m) (items new)),
                                           timestamp :=
                                             chooseBetterTimestamp tz (timestamp m) (timestamp new),
                                           correlation_info := Some
                                             \<lparr>merged_at = now,
                                              info_correlation_type = correlation_type c,
                                              info_confidence = confidence c,
                                              info_reason = reason c,
                                              merged_transaction_id =
                                                (if truthy (tx_id new) then the (tx_id new)
                                                 else ''unknown'')\<rparr>,
                                           updated_at := Some now\<rparr>;
                                        merged = \<lparr>action = ''merged'',
                                           existing_transaction_id = tx_id m,
                                           result_confidence = confidence c,
                                           result_correlation_type = correlation_type c\<rparr>
                                    in if truthy (tx_id new)
                                       then (case df of
                                               Some msg \<Rightarrow> (Inr None, st(k \<mapsto> winner))
                                             | None \<Rightarrow>
                                                 (Inr (Some merged),
                                                  (st(k \<mapsto> winner))(the (tx_id new) := None)))
                                       else (Inr (Some merged), st(k \<mapsto> winner))))))))"
proof (intro conjI impI)
  assume "\<forall>(m, c) \<in> set (zip pm cs). is_correlated c \<longrightarrow> confidence c \<le> 69"
  then show "findCorrelations getDocs callGemini parseJson tz now uf df st new uid inp
      = (Inr None, st)"
    using threshold_seventy_merge [OF pm cs] by blast
next
  assume "\<exists>(m, c) \<in> set (zip pm cs). is_correlated c \<and> 70 \<le> confidence c"
  then obtain m c where mem: "(m, c) \<in> set (zip pm cs)"
    and ok: "is_correlated c" "70 \<le> confidence c"
    and top: "\<forall>(m', c') \<in> set (zip pm cs). is_correlated c' \<longrightarrow> confidence c' \<le> confidence c"
    and run: "findCorrelations getDocs callGemini parseJson tz now uf df st new uid inp
        = (case mergeTransactions tz now uf df st m new inp c of
             (Inl e, st') \<Rightarrow> (Inr None, st')
           | (Inr merged, st') \<Rightarrow>
               (Inr (Some \<lparr>action = ''merged'', existing_transaction_id = tx_id m,
                           result_confidence = confidence c,
                           result_correlation_type = correlation_type c\<rparr>), st'))"
    using threshold_seventy_merge [OF pm cs, of now uf df st inp] by blast
  have "m \<in> set pm"
    using mem by (rule set_zip_leftD)
  then have other: "tx_id m \<noteq> tx_id new"
    using pm by (intro candidates_have_other_id)
  show "\<exists>m c. (m, c) \<in> set (zip pm cs) \<and> is_correlated c \<and> 70 \<le> confidence c
      \<and> (\<forall>(m', c') \<in> set (zip pm cs). is_correlated c' \<longrightarrow> confidence c' \<le> confidence c)
      \<and> findCorrelations getDocs callGemini parseJson tz now uf df st new uid inp
         = (case mergeTransactions tz now uf df st m new inp c of
              (Inl e, st') \<Rightarrow> (Inr None, st')
            | (Inr merged, st') \<Rightarrow>
                (Inr (Some \<lparr>action = ''merged'', existing_transaction_id = tx_id m,
                            result_confidence = confidence c,
                            result_correlation_type = correlation_type c\<rparr>), st'))
      \<and> tx_id m \<noteq> tx_id new
      \<and> findCorrelations getDocs callGemini parseJson tz now uf df st new uid inp
         = (case uf of
                       Some msg \<Rightarrow> (Inr None, st)
                     | None \<Rightarrow>
                         (case tx_id m of
                            None \<Rightarrow> (Inr None, st)
                          | Some k \<Rightarrow>
                              (case st k of
                                 None \<Rightarrow> (Inr None, st)
                               | Some doc \<Rightarrow>
                                   (let winner = doc
                                          \<lparr>sources := Some
                                             ((case sources m of None \<Rightarrow> [] | Some ss \<Rightarrow> ss)
                                              @ [\<lparr>input_type = input_data_type inp,
                                                  uri = or_string (metadata_uri inp) None,
                                                  added_at = Some now\<rparr>]),
                                           merchant := or_string (merchant m) (merchant new),
                                           amount := or_number (amount m) (amount new),
                                           currency := or_string (currency m) (currency new),
                                           category := or_string (category m) (category new),
                                           items := Some (mergeItems (items m) (items new)),
                                           timestamp :=
                                             chooseBetterTimestamp tz (timestamp m) (timestamp new),
                                           correlation_info := Some
                                             \<lparr>merged_at = now,
                                              info_correlation_type = correlation_type c,
                                              info_confidence = confidence c,
                                              info_reason = reason c,
                                              merged_transaction_id =
                                                (if truthy (tx_id new) then the (tx_id new)
                                                 else ''unknown'')\<rparr>,
                                           updated_at := Some now\<rparr>;
                                        merged = \<lparr>action = ''merged'',
                                           existing_transaction_id = tx_id m,
                                           result_confidence = confidence c,
                                           result_correlation_type = correlation_type c\<rparr>
                                    in if truthy (tx_id new)
                                       then (case df of
                                               Some msg \<Rightarrow> (Inr None, st(k \<mapsto> winner))
                                             | None \<Rightarrow>
                                                 (Inr (Some merged),
                                                  (st(k \<mapsto> winner))(the (tx_id new) := None)))
                                       else (Inr (Some merged), st(k \<mapsto> winner))))))"
    using mem ok top run other unfolding merge_effect by blast
qed

theorem threshold_seventy_witness:
  "fst (findCorrelations ex_getDocs ex_callGemini
          (ex_parseJson ''same_purchase'' 88) 0 (utc 2025 1 24 14 35 3) None None
          ex_store ex_new ''u1'' ex_input)
     = Inr (Some \<lparr>action = ''merged'', existing_transaction_id = Some ''A'',
                  result_confidence = 88, result_correlation_type = ''same_purchase''\<rparr>)
   \<and> snd (findCorrelations ex_getDocs ex_callGemini
          (ex_parseJson ''same_purchase'' 88) 0 (utc 2025 1 24 14 35 3) None None
          ex_store ex_new ''u1'' ex_input) ''B'' = None
   \<and> map input_type (the (sources (the
        (snd (findCorrelations ex_getDocs ex_callGemini
          (ex_parseJson ''same_purchase'' 88) 0 (utc 2025 1 24 14 35 3) None None
          ex_store ex_new ''u1'' ex_input) ''A''))))
     = [Some ''sms'', Some ''email'']
   \<and> items (the
        (snd (findCorrelations ex_getDocs ex_callGemini
          (ex_parseJson ''same_purchase'' 88) 0 (utc 2025 1 24 14 35 3) None None
          ex_store ex_new ''u1'' ex_input) ''A''))
     = Some [\<lparr>name = Some ''Latte'', quantity = None, price = Some 252\<rparr>]
   \<and> findCorrelations ex_getDocs ex_callGemini
          (ex_parseJson ''same_purchase'' 69) 0 (utc 2025 1 24 14 35 3) None None
          ex_store ex_new ''u1'' ex_input
     = (Inr None, ex_store)"
proof -
  let ?now = "utc 2025 1 24 14 35 3"
  let ?run = "findCorrelations ex_getDocs ex_callGemini
          (ex_parseJson ''same_purchase'' 88) 0 ?now None None
          ex_store ex_new ''u1'' ex_input"
  have high: "\<exists>(m, c) \<in> set (zip [ex_existing] [ex_verdict ''same_purchase'' 88]).
      is_correlated c \<and> 70 \<le> confidence c"
    by (simp add: ex_verdict_def)
  have low: "\<forall>(m, c) \<in> set (zip [ex_existing] [ex_verdict ''same_purchase'' 69]).
      is_correlated c \<longrightarrow> confidence c \<le> 69"
    by (simp add: ex_verdict_def)
  have kind: "''same_purchase'' \<noteq> []" by simp
  note merged = threshold_seventy [OF ex_matches ex_analysis [OF kind, of 88],
      where now = ?now and uf = None and df = None and st = ex_store and inp = ex_input,
      THEN conjunct2, THEN mp, OF high]
  then obtain m c where mem: "(m, c) \<in> set (zip [ex_existing] [ex_verdict ''same_purchase'' 88])"
    and run: "?run
        = (case (None :: string option) of
                       Some msg \<Rightarrow> (Inr None, ex_store)
                     | None \<Rightarrow>
                         (case tx_id m of
                            None \<Rightarrow> (Inr None, ex_store)
                          | Some k \<Rightarrow>
                              (case ex_store k of
                                 None \<Rightarrow> (Inr None, ex_store)
                               | Some doc \<Rightarrow>
                                   (let winner = doc
                                          \<lparr>sources := Some
                                             ((case sources m of None \<Rightarrow> [] | Some ss \<Rightarrow> ss)
                                              @ [\<lparr>input_type = input_data_type ex_input,
                                                  uri = or_string (metadata_uri ex_input) None,
                                                  added_at = Some ?now\<rparr>]),
                                           merchant := or_string (merchant m) (merchant ex_new),
                                           amount := or_number (amount m) (amount ex_new),
                                           currency := or_string (currency m) (currency ex_new),
                                           category := or_string (category m) (category ex_new),
                                           items := Some (mergeItems (items m) (items ex_new)),
                                           timestamp :=
                                             chooseBetterTimestamp 0 (timestamp m) (timestamp ex_new),
                                           correlation_info := Some
                                             \<lparr>merged_at = ?now,
                                              info_correlation_type = correlation_type c,
                                              info_confidence = confidence c,
                                              info_reason = reason c,
                                              merged_transaction_id =
                                                (if truthy (tx_id ex_new) then the (tx_id ex_new)
                                                 else ''unknown'')\<rparr>,
                                           updated_at := Some ?now\<rparr>;
                                        merged = \<lparr>action = ''merged'',
                                           existing_transaction_id = tx_id m,
                                           result_confidence = confidence c,
                                           result_correlation_type = correlation_type c\<rparr>
                                    in if truthy (tx_id ex_new)
                                       then (case (None :: string option) of
                                               Some msg \<Rightarrow> (Inr None, ex_store(k \<mapsto> winner))
                                             | None \<Rightarrow>
                                                 (Inr (Some merged),
                                                  (ex_store(k \<mapsto> winner))(the (tx_id ex_new) := None)))
                                       else (Inr (Some merged), ex_store(k \<mapsto> winner))))))"
    by blast
  from mem have m: "m = ex_existing" and c: "c = ex_verdict ''same_purchase'' 88"
    by simp_all
  have stored: "ex_store ''A'' = Some ex_existing"
    by (simp add: ex_store_def)
  have ids: "tx_id ex_existing = Some ''A''" "tx_id ex_new = Some ''B''"
    by (simp_all add: ex_existing_def ex_new_def)
  have run': "?run = (Inr (Some \<lparr>action = ''merged'', existing_transaction_id = tx_id ex_existing,
                  result_confidence = confidence (ex_verdict ''same_purchase'' 88),
                  result_correlation_type = correlation_type (ex_verdict ''same_purchase'' 88)\<rparr>),
         (ex_store(''A'' \<mapsto> ex_existing
            \<lparr>sources := Some
               ((case sources ex_existing of None \<Rightarrow> [] | Some ss \<Rightarrow> ss)
                @ [\<lparr>input_type = input_data_type ex_input,
                    uri = or_string (metadata_uri ex_input) None,
                    added_at = Some ?now\<rparr>]),
             merchant := or_string (merchant ex_existing) (merchant ex_new),
             amount := or_number (amount ex_existing) (amount ex_new),
             currency := or_string (currency ex_existing) (currency ex_new),
             category := or_string (category ex_existing) (category ex_new),
             items := Some (mergeItems (items ex_existing) (items ex_new)),
             timestamp :=
               chooseBetterTimestamp 0 (timestamp ex_existing) (timestamp ex_new),
             correlation_info := Some
               \<lparr>merged_at = ?now,
                info_correlation_type = correlation_type (ex_verdict ''same_purchase'' 88),
                info_confidence = confidence (ex_verdict ''same_purchase'' 88),
                info_reason = reason (ex_verdict ''same_purchase'' 88),
                merged_transaction_id = ''B''\<rparr>,
             updated_at := Some ?now\<rparr>))(''B'' := None))"
    unfolding run m c by (simp add: stored ids truthy_def Let_def)
  have answer: "fst ?run
     = Inr (Some \<lparr>action = ''merged'', existing_transaction_id = Some ''A'',
                  result_confidence = 88, result_correlation_type = ''same_purchase''\<rparr>)"
    unfolding run' by (simp add: ids ex_verdict_def)
  have deleted: "snd ?run ''B'' = None"
    unfolding run' by simp
  have srcs: "map input_type (the (sources (the (snd ?run ''A''))))
      = [Some ''sms'', Some ''email'']"
    unfolding run' by (simp add: ex_existing_def ex_input_def)
  have its: "items (the (snd ?run ''A''))
      = Some [\<lparr>name = Some ''Latte'', quantity = None, price = Some 252\<rparr>]"
    unfolding run' by (simp add: ex_existing_def ex_new_def mergeItems_def)
  have second: "findCorrelations ex_getDocs ex_callGemini
          (ex_parseJson ''same_purchase'' 69) 0 ?now None None
          ex_store ex_new ''u1'' ex_input
     = (Inr None, ex_store)"
    using threshold_seventy [OF ex_matches ex_analysis [OF kind, of 69],
        where now = ?now and uf = None and df = None and st = ex_store and inp = ex_input] low
    by blast
  from answer deleted srcs its second show ?thesis
    by (intro conjI)
qed

text \<open>
  C4 (as the loop decides). Among the verdicts that are correlated and have a positive
  confidence the loop selects one of highest confidence; among several of that confidence
  it selects the one that comes first in the candidate list. The classification and the
  time of the last update play no part. Without such a verdict nothing is selected.
\<close>

theorem earliest_best_is_chosen:
  "(\<not> (\<exists>i. i < length pm \<and> i < length cs \<and> is_correlated (cs ! i) \<and> 0 < confidence (cs ! i))
      \<longrightarrow> best_loop pm cs (None, 0) = (None, 0))
   \<and> ((\<exists>i. i < length pm \<and> i < length cs \<and> is_correlated (cs ! i) \<and> 0 < confidence (cs ! i))
      \<longrightarrow> (\<exists>j. j < length pm \<and> j < length cs
             \<and> best_loop pm cs (None, 0) = (Some (pm ! j, cs ! j), confidence (cs ! j))
             \<and> is_correlated (cs ! j)
             \<and> (\<forall>i. i < length pm \<and> i < length cs \<and> is_correlated (cs ! i)
                    \<longrightarrow> confidence (cs ! i) \<le> confidence (cs ! j))
             \<and> (\<forall>i<j. is_correlated (cs ! i) \<longrightarrow> confidence (cs ! i) < confidence (cs ! j))))"
proof -
  obtain b' k' where run: "best_loop pm cs (None, 0) = (b', k')"
    by (cases "best_loop pm cs (None, 0)") auto
  have upper: "\<forall>i. i < length pm \<and> i < length cs \<and> is_correlated (cs ! i)
      \<longrightarrow> confidence (cs ! i) \<le> k'"
    using best_loop_upper [OF run] zip_nth_mem by blast
  from best_loop_choice [OF run]
  consider (none) "b' = None" "k' = 0"
    | (some) j where "j < length pm" "j < length cs" "b' = Some (pm ! j, cs ! j)"
        "is_correlated (cs ! j)" "confidence (cs ! j) = k'" "0 < k'"
        "\<forall>i<j. is_correlated (cs ! i) \<longrightarrow> confidence (cs ! i) < k'"
    by auto
  then show ?thesis
  proof cases
    case none
    have "\<not> (\<exists>i. i < length pm \<and> i < length cs \<and> is_correlated (cs ! i) \<and> 0 < confidence (cs ! i))"
      using upper none(2) by fastforce
    then show ?thesis
      using run none by simp
  next
    case some
    have "best_loop pm cs (None, 0) = (Some (pm ! j, cs ! j), confidence (cs ! j))"
      using run some(3,5) by simp
    moreover have "\<exists>i. i < length pm \<and> i < length cs \<and> is_correlated (cs ! i) \<and> 0 < confidence (cs ! i)"
      using some by blast
    ultimately show ?thesis
      using some(1,2,4,7) upper unfolding some(5) [symmetric] by blast
  qed
qed

theorem earliest_best_is_chosen_witness:
  "best_loop [ex_existing, ex_other, ex_new]
      [ex_verdict ''related'' 75, ex_verdict ''related'' 90, ex_verdict ''duplicate'' 90] (None, 0)
     = (Some (ex_other, ex_verdict ''related'' 90), 90)
   \<and> best_loop [ex_existing] [] (None, 0) = (None, 0)"
proof -
  let ?pm = "[ex_existing, ex_other, ex_new]"
  let ?cs = "[ex_verdict ''related'' 75, ex_verdict ''related'' 90, ex_verdict ''duplicate'' 90]"
  have some: "\<exists>i. i < length ?pm \<and> i < length ?cs \<and> is_correlated (?cs ! i) \<and> 0 < confidence (?cs ! i)"
    by (rule exI [of _ 0]) (simp add: ex_verdict_def)
  have none: "\<not> (\<exists>i. i < length [ex_existing] \<and> i < length ([] :: correlation list)
      \<and> is_correlated ([] ! i) \<and> 0 < confidence ([] ! i))"
    by simp
  note earliest_best_is_chosen [of ?pm ?cs, THEN conjunct2, THEN mp, OF some]
  then obtain j where len: "j < length ?pm"
    and run: "best_loop ?pm ?cs (None, 0) = (Some (?pm ! j, ?cs ! j), confidence (?cs ! j))"
    and top: "\<forall>i. i < length ?pm \<and> i < length ?cs \<and> is_correlated (?cs ! i)
        \<longrightarrow> confidence (?cs ! i) \<le> confidence (?cs ! j)"
    and first: "\<forall>i<j. is_correlated (?cs ! i) \<longrightarrow> confidence (?cs ! i) < confidence (?cs ! j)"
    by blast
  from len have j: "j < 3" by simp
  from j consider "j = 0" | "j = 1" | "j = 2" by linarith
  then have "j = 1"
  proof cases
    case 1
    with top [rule_format, of 1] show ?thesis by (simp add: ex_verdict_def)
  next
    case 2
    then show ?thesis .
  next
    case 3
    with first [rule_format, of 1] show ?thesis by (simp add: ex_verdict_def)
  qed
  with run have "best_loop ?pm ?cs (None, 0) = (Some (ex_other, ex_verdict ''related'' 90), 90)"
    by (simp add: ex_verdict_def)
  moreover have "best_loop [ex_existing] [] (None, 0) = (None, 0)"
    using earliest_best_is_chosen [of "[ex_existing]" "[]"] none by blast
  ultimately show ?thesis by (rule conjI)
qed

text \<open>
  C4 as stated fails: with a \<open>related\<close> and a \<open>duplicate\<close> verdict of the same
  confidence 90 the loop keeps the first one, \<open>related\<close>; with two \<open>duplicate\<close>
  verdicts it keeps the first candidate although the second was updated later.
\<close>

theorem tie_break_counterexample:
  "best_loop [ex_existing, ex_other] [ex_verdict ''related'' 90, ex_verdict ''duplicate'' 90] (None, 0)
     = (Some (ex_existing, ex_verdict ''related'' 90), 90)
   \<and> is_correlated (ex_verdict ''duplicate'' 90)
   \<and> confidence (ex_verdict ''duplicate'' 90) = confidence (ex_verdict ''related'' 90)
   \<and> correlation_type (ex_verdict ''related'' 90) = ''related''
   \<and> correlation_type (ex_verdict ''duplicate'' 90) = ''duplicate''
   \<and> best_loop [ex_existing, ex_other] [ex_verdict ''duplicate'' 90, ex_verdict ''duplicate'' 90] (None, 0)
     = (Some (ex_existing, ex_verdict ''duplicate'' 90), 90)
   \<and> the (updated_at ex_existing) < the (updated_at ex_other)"
  by (simp add: ex_verdict_def ex_other_def ex_existing_def utc_def)

subsection \<open>The oracle gateway\<close>

declare fill_missing.simps [simp del]

lemma fill_missing_eq:
  "fill_missing cs n = cs @ map (\<lambda>len. Some (missing_correlation len)) [length cs..<n]"
proof (induction cs n rule: fill_missing.induct)
  case (1 correlations expectedCount)
  show ?case
  proof (cases "length correlations < expectedCount")
    case True
    then have "fill_missing correlations expectedCount
        = fill_missing (correlations @ [Some (missing_correlation (length correlations))]) expectedCount"
      by (subst fill_missing.simps) simp
    also have "\<dots> = (correlations @ [Some (missing_correlation (length correlations))])
        @ map (\<lambda>len. Some (missing_correlation len)) [Suc (length correlations)..<expectedCount]"
      using "1.IH" [OF True] by simp
    also have "\<dots> = correlations
        @ map (\<lambda>len. Some (missing_correlation len)) [length correlations..<expectedCount]"
      using True by (simp add: upt_conv_Cons)
    finally show ?thesis .
  next
    case False
    then show ?thesis
      by (subst fill_missing.simps) simp
  qed
qed

lemma set_defaults_missing:
  "set_defaults (missing_correlation len) = default_correlation len ''No analysis provided''"
  by (simp add: set_defaults_def missing_correlation_def default_correlation_def truthy_def)

lemma no_correlation_default: "no_correlation_verdict (default_correlation index why)"
  by (simp add: no_correlation_verdict_def default_correlation_def)

lemma default_response_props:
  "length (default_response n why) = n"
  "v \<in> set (default_response n why) \<Longrightarrow> no_correlation_verdict v"
  by (auto simp: default_response_def no_correlation_default)

lemma default_response_nth:
  "i < n \<Longrightarrow> no_correlation_verdict (default_response n why ! i)"
  by (simp add: default_response_def no_correlation_default)

lemma parse_total:
  "\<exists>vs. parseMultipleCorrelationResponse parsed n = Inr vs \<and> n \<le> length vs"
  by (auto simp: parseMultipleCorrelationResponse_def default_response_props fill_missing_eq Let_def
      split: sum.splits json_analysis.splits option.splits)

lemma parse_failure:
  "parseMultipleCorrelationResponse (Inl e) n = Inr (default_response n ''Failed to parse analysis'')"
  by (simp add: parseMultipleCorrelationResponse_def)

lemma parse_object:
  fixes property :: "raw_correlation option list option"
  defines "rs \<equiv> (case property of None \<Rightarrow> [] | Some cs \<Rightarrow> cs)"
  shows "\<exists>vs. parseMultipleCorrelationResponse (Inr (Object property)) n = Inr vs
      \<and> (if None \<in> set rs
         then length vs = n \<and> (\<forall>v\<in>set vs. no_correlation_verdict v)
         else length vs = max n (length rs)
            \<and> (\<forall>i<length rs. vs ! i = set_defaults (the (rs ! i)))
            \<and> (\<forall>i. length rs \<le> i \<and> i < n \<longrightarrow> no_correlation_verdict (vs ! i)))"
proof (cases "None \<in> set rs")
  case True
  then have "parseMultipleCorrelationResponse (Inr (Object property)) n
      = Inr (default_response n ''Failed to parse analysis'')"
    by (simp add: parseMultipleCorrelationResponse_def fill_missing_eq rs_def)
  then show ?thesis
    using True by (simp add: default_response_props)
next
  case False
  let ?pad = "map (\<lambda>len. Some (missing_correlation len)) [length rs..<n]"
  let ?vs = "map (\<lambda>c. set_defaults (the c)) (rs @ ?pad)"
  have none: "None \<notin> set (rs @ ?pad)"
    using False by auto
  have eq: "parseMultipleCorrelationResponse (Inr (Object property)) n = Inr ?vs"
    using none
    by (simp add: parseMultipleCorrelationResponse_def fill_missing_eq rs_def del: set_append)
  have len: "length ?vs = max n (length rs)"
    by simp
  have pad: "no_correlation_verdict (?vs ! i)" if "length rs \<le> i" "i < n" for i
  proof -
    have "?vs ! i = set_defaults (the (?pad ! (i - length rs)))"
      using that by (simp add: nth_append)
    also have "\<dots> = default_correlation i ''No analysis provided''"
      using that by (simp add: set_defaults_missing)
    finally show ?thesis
      by (simp add: no_correlation_default)
  qed
  have keep: "?vs ! i = set_defaults (the (rs ! i))" if "i < length rs" for i
    using that by (simp add: nth_append)
  show ?thesis
    using False eq len pad keep by auto
qed

lemma parse_not_an_object:
  "parseMultipleCorrelationResponse (Inr NotAnObject) n
     = Inr (default_response n ''Failed to parse analysis'')"
  by (simp add: parseMultipleCorrelationResponse_def)

text \<open>
  C7. The gateway always returns verdicts, at least one for each candidate, and never an
  error. Every candidate gets the verdict of no correlation (not correlated, confidence
  0, \<open>unrelated\<close>, \<open>keep_separate\<close>) when the oracle call fails, when its reply cannot
  be parsed, when the parsed reply is no object, and when an entry of its
  \<open>correlations\<close> is no object. Otherwise the verdicts given (none when the reply has
  no \<open>correlations\<close> array) are kept with their defaults filled in, and every candidate
  beyond them gets the verdict of no correlation.
\<close>

theorem gateway_self_heals:
  "\<exists>vs. analyzeMultipleCorrelationsWithGemini callGemini parseJson new pm = Inr vs
     \<and> length pm \<le> length vs
     \<and> ((\<exists>e. callGemini new pm = Inl e) \<longrightarrow>
          length vs = length pm \<and> (\<forall>v\<in>set vs. no_correlation_verdict v))
     \<and> (\<forall>response. callGemini new pm = Inr response \<longrightarrow>
          (case parseJson response of
             Inl e \<Rightarrow> length vs = length pm \<and> (\<forall>v\<in>set vs. no_correlation_verdict v)
           | Inr NotAnObject \<Rightarrow>
               length vs = length pm \<and> (\<forall>v\<in>set vs. no_correlation_verdict v)
           | Inr (Object property) \<Rightarrow>
               (if None \<in> set (case property of None \<Rightarrow> [] | Some rs \<Rightarrow> rs)
                then length vs = length pm \<and> (\<forall>v\<in>set vs. no_correlation_verdict v)
                else length vs
                       = max (length pm) (length (case property of None \<Rightarrow> [] | Some rs \<Rightarrow> rs))
                   \<and> (\<forall>i<length (case property of None \<Rightarrow> [] | Some rs \<Rightarrow> rs).
                         vs ! i
                         = set_defaults (the ((case property of None \<Rightarrow> [] | Some rs \<Rightarrow> rs) ! i)))
                   \<and> (\<forall>i. length (case property of None \<Rightarrow> [] | Some rs \<Rightarrow> rs) \<le> i
                           \<and> i < length pm \<longrightarrow> no_correlation_verdict (vs ! i)))))"
proof (cases "callGemini new pm")
  case (Inl e)
  then have "analyzeMultipleCorrelationsWithGemini callGemini parseJson new pm
      = Inr (default_response (length pm) ''Analysis failed'')"
    by (simp add: analyzeMultipleCorrelationsWithGemini_def)
  with Inl show ?thesis
    by (simp add: default_response_props)
next
  case (Inr response)
  have res: "analyzeMultipleCorrelationsWithGemini callGemini parseJson new pm = Inr vs"
    if "parseMultipleCorrelationResponse (parseJson response) (length pm) = Inr vs" for vs
    using Inr that by (simp add: analyzeMultipleCorrelationsWithGemini_def)
  show ?thesis
  proof (cases "parseJson response")
    case (Inl e)
    have "analyzeMultipleCorrelationsWithGemini callGemini parseJson new pm
        = Inr (default_response (length pm) ''Failed to parse analysis'')"
      by (rule res) (simp add: Inl parse_failure)
    then show ?thesis
      using Inr Inl by (simp add: default_response_props)
  next
    case parsed: (Inr json)
    show ?thesis
    proof (cases json)
      case NotAnObject
      have "analyzeMultipleCorrelationsWithGemini callGemini parseJson new pm
          = Inr (default_response (length pm) ''Failed to parse analysis'')"
        by (rule res) (simp add: parsed NotAnObject parse_not_an_object)
      then show ?thesis
        using Inr parsed NotAnObject by (simp add: default_response_props)
    next
      case (Object property)
      from parse_object [of property "length pm"]
      obtain vs where vs: "parseMultipleCorrelationResponse (Inr (Object property)) (length pm) = Inr vs"
        and props: "if None \<in> set (case property of None \<Rightarrow> [] | Some rs \<Rightarrow> rs)
           then length vs = length pm \<and> (\<forall>v\<in>set vs. no_correlation_verdict v)
           else length vs = max (length pm) (length (case property of None \<Rightarrow> [] | Some rs \<Rightarrow> rs))
             \<and> (\<forall>i<length (case property of None \<Rightarrow> [] | Some rs \<Rightarrow> rs).
                   vs ! i = set_defaults (the ((case property of None \<Rightarrow> [] | Some rs \<Rightarrow> rs) ! i)))
             \<and> (\<forall>i. length (case property of None \<Rightarrow> [] | Some rs \<Rightarrow> rs) \<le> i \<and> i < length pm
                   \<longrightarrow> no_correlation_verdict (vs ! i))"
        by blast
      have "analyzeMultipleCorrelationsWithGemini callGemini parseJson new pm = Inr vs"
        by (rule res) (simp add: parsed Object vs)
      moreover have "length pm \<le> length vs"
        using props by (simp split: if_splits)
      ultimately show ?thesis
        using Inr parsed Object props by simp
    qed
  qed
qed

theorem gateway_self_heals_witness:
  "(\<exists>vs. analyzeMultipleCorrelationsWithGemini ex_oracle_down ex_unparsable ex_new ex_batch = Inr vs
        \<and> length vs = 3 \<and> list_all no_correlation_verdict vs)
   \<and> (\<exists>vs. analyzeMultipleCorrelationsWithGemini ex_callGemini ex_unparsable ex_new ex_batch = Inr vs
        \<and> length vs = 3 \<and> list_all no_correlation_verdict vs)
   \<and> (\<exists>vs. analyzeMultipleCorrelationsWithGemini ex_callGemini ex_not_an_object ex_new ex_batch
           = Inr vs
        \<and> length vs = 3 \<and> list_all no_correlation_verdict vs)
   \<and> (\<exists>vs. analyzeMultipleCorrelationsWithGemini ex_callGemini ex_empty_object ex_new ex_batch
           = Inr vs
        \<and> length vs = 3 \<and> no_correlation_verdict (vs ! 0)
        \<and> no_correlation_verdict (vs ! 1) \<and> no_correlation_verdict (vs ! 2))
   \<and> (\<exists>vs. analyzeMultipleCorrelationsWithGemini ex_callGemini (ex_parseJson ''duplicate'' 95)
           ex_new ex_batch = Inr vs
        \<and> length vs = 3 \<and> vs ! 0 = ex_verdict ''duplicate'' 95
        \<and> no_correlation_verdict (vs ! 1) \<and> no_correlation_verdict (vs ! 2))"
proof -
  have n: "length ex_batch = 3"
    by (simp add: ex_batch_def)
  have reply: "ex_callGemini ex_new ex_batch = Inr ''reply''"
    by (simp add: ex_callGemini_def)
  have down: "\<exists>e. ex_oracle_down ex_new ex_batch = Inl e"
    by (simp add: ex_oracle_down_def)
  have a: "\<exists>vs. analyzeMultipleCorrelationsWithGemini ex_oracle_down ex_unparsable ex_new ex_batch
      = Inr vs \<and> length vs = 3 \<and> list_all no_correlation_verdict vs"
    using gateway_self_heals [of ex_oracle_down ex_unparsable ex_new ex_batch] down n
    by (auto simp: list_all_iff)
  have b: "\<exists>vs. analyzeMultipleCorrelationsWithGemini ex_callGemini ex_unparsable ex_new ex_batch
      = Inr vs \<and> length vs = 3 \<and> list_all no_correlation_verdict vs"
    using gateway_self_heals [of ex_callGemini ex_unparsable ex_new ex_batch]
    apply (elim exE conjE)
    subgoal for vs
      apply (rule exI [of _ vs])
      apply (drule spec [of _ "''reply''"])
      apply (simp add: reply ex_unparsable_def n list_all_iff)
      done
    done
  have c: "\<exists>vs. analyzeMultipleCorrelationsWithGemini ex_callGemini ex_not_an_object ex_new ex_batch
      = Inr vs \<and> length vs = 3 \<and> list_all no_correlation_verdict vs"
    using gateway_self_heals [of ex_callGemini ex_not_an_object ex_new ex_batch]
    apply (elim exE conjE)
    subgoal for vs
      apply (rule exI [of _ vs])
      apply (drule spec [of _ "''reply''"])
      apply (simp add: reply ex_not_an_object_def n list_all_iff)
      done
    done
  have three: "(\<forall>i<3. P i) \<longleftrightarrow> P 0 \<and> P 1 \<and> P (2::nat)" for P
  proof -
    have "i < 3 \<longleftrightarrow> i = 0 \<or> i = 1 \<or> i = 2" for i :: nat
      by linarith
    then show ?thesis by auto
  qed
  have d: "\<exists>vs. analyzeMultipleCorrelationsWithGemini ex_callGemini ex_empty_object ex_new ex_batch
      = Inr vs \<and> length vs = 3 \<and> no_correlation_verdict (vs ! 0)
        \<and> no_correlation_verdict (vs ! 1) \<and> no_correlation_verdict (vs ! 2)"
    using gateway_self_heals [of ex_callGemini ex_empty_object ex_new ex_batch]
    apply (elim exE conjE)
    subgoal for vs
      apply (rule exI [of _ vs])
      apply (drule spec [of _ "''reply''"])
      apply (simp add: reply ex_empty_object_def n three)
      done
    done
  let ?r = "\<lparr>raw_transaction_index = Some 1, raw_is_correlated = Some True,
      raw_confidence = Some 95, raw_correlation_type = Some ''duplicate'',
      raw_reason = None, raw_recommended_action = Some ''merge''\<rparr>"
  have short: "ex_parseJson ''duplicate'' 95 ''reply'' = Inr (Object (Some [Some ?r]))"
    by (simp add: ex_parseJson_def ex_reply_def)
  have tail: "(\<forall>i. Suc 0 \<le> i \<and> i < 3 \<longrightarrow> P i) \<longleftrightarrow> P 1 \<and> P (2::nat)" for P
  proof -
    have "Suc 0 \<le> i \<and> i < 3 \<longleftrightarrow> i = 1 \<or> i = 2" for i :: nat
      by linarith
    then show ?thesis by auto
  qed
  have e: "\<exists>vs. analyzeMultipleCorrelationsWithGemini ex_callGemini (ex_parseJson ''duplicate'' 95)
        ex_new ex_batch = Inr vs
      \<and> length vs = 3 \<and> vs ! 0 = ex_verdict ''duplicate'' 95
      \<and> no_correlation_verdict (vs ! 1) \<and> no_correlation_verdict (vs ! 2)"
    using gateway_self_heals [of ex_callGemini "ex_parseJson ''duplicate'' 95" ex_new ex_batch]
    apply (elim exE conjE)
    subgoal for vs
      apply (rule exI [of _ vs])
      apply (drule spec [of _ "''reply''"])
      apply (simp add: reply short n tail set_defaults_def ex_verdict_def truthy_def)
      done
    done
  from a b c d e show ?thesis by (intro conjI)
qed

subsection \<open>Candidate search\<close>

text \<open>
  C9 (as the code handles it). When the store fails the query, \<open>getUserTransactions\<close>
  throws, but \<open>findPotentialMatches\<close> catches the error and returns the empty list,
  and \<open>findCorrelations\<close> answers \<open>null\<close> with the store untouched: the same answer
  as for a store that holds no candidate. No error reaches the caller.
\<close>

theorem store_read_failure_is_swallowed:
  assumes "\<forall>q. \<exists>e. getDocs q = Inl e"
  shows "(\<exists>e. getUserTransactions getDocs uid fs = Inl e)
     \<and> findPotentialMatches getDocs tz new uid = Inr []
     \<and> findCorrelations getDocs callGemini parseJson tz now uf df st new uid inp = (Inr None, st)
     \<and> findCorrelations getDocs callGemini parseJson tz now uf df st new uid inp
        = findCorrelations (\<lambda>q. Inr []) callGemini parseJson tz now uf df st new uid inp"
proof -
  have adapter: "\<exists>e. getUserTransactions getDocs uid' fs' = Inl e" for uid' fs'
    using assms [rule_format, of "build_constraints uid' fs'"]
    by (auto simp: getUserTransactions_def)
  have search: "findPotentialMatches getDocs tz new uid = Inr []"
  proof (cases "calculateTimeWindow tz (timestamp new)")
    case (Inl e)
    then show ?thesis by (simp add: findPotentialMatches_def)
  next
    case (Inr w)
    obtain s e where w: "w = (s, e)" by (cases w)
    obtain err where "getUserTransactions getDocs uid
        \<lparr>filter_category = None, startDate = Some s, endDate = Some e,
         filter_status = None, limit = Some 50\<rparr> = Inl err"
      using adapter by blast
    with Inr w show ?thesis by (simp add: findPotentialMatches_def)
  qed
  have empty: "findPotentialMatches (\<lambda>q. Inr []) tz new uid = Inr []"
    by (simp add: findPotentialMatches_def getUserTransactions_def split: sum.splits prod.splits)
  show ?thesis
    using adapter search empty by (simp add: findCorrelations_def)
qed

theorem store_read_failure_is_swallowed_witness:
  "findPotentialMatches ex_store_down 0 ex_new ''u1'' = Inr []
   \<and> fst (findCorrelations ex_store_down ex_callGemini (ex_parseJson ''duplicate'' 95) 0
           (utc 2025 1 24 14 35 3) None None ex_store ex_new ''u1'' ex_input) = Inr None"
proof -
  have down: "\<forall>q. \<exists>e. ex_store_down q = Inl e"
    by (simp add: ex_store_down_def)
  show ?thesis
    using store_read_failure_is_swallowed [OF down, where tz = 0 and new = ex_new
        and uid = "''u1''" and callGemini = ex_callGemini
        and parseJson = "ex_parseJson ''duplicate'' 95" and now = "utc 2025 1 24 14 35 3"
        and uf = None and df = None and st = ex_store and inp = ex_input]
    by simp
qed

text \<open>
  C9 as stated fails: with a store that holds a matching candidate but fails the query,
  the candidate search returns the empty list and \<open>findCorrelations\<close> returns
  \<open>null\<close>, not an error.
\<close>

theorem store_read_failure_counterexample:
  "findPotentialMatches ex_getDocs 0 ex_new ''u1'' = Inr [ex_existing]
   \<and> findPotentialMatches ex_store_down 0 ex_new ''u1'' = Inr []
   \<and> findCorrelations ex_store_down ex_callGemini (ex_parseJson ''duplicate'' 95) 0
        (utc 2025 1 24 14 35 3) None None ex_store ex_new ''u1'' ex_input = (Inr None, ex_store)"
proof -
  have "findPotentialMatches ex_getDocs 0 ex_new ''u1'' = Inr [ex_existing]"
    by (rule ex_matches)
  moreover have "findPotentialMatches ex_store_down 0 ex_new ''u1'' = Inr []"
    by (simp add: findPotentialMatches_def getUserTransactions_def ex_store_down_def
        split: sum.splits prod.splits)
  ultimately show ?thesis
    by (simp add: findCorrelations_def)
qed

text \<open>
  C8 (as the code filters). Of the documents the store returns, the candidate search
  keeps those whose id differs from the new transaction's, that pass the amount and the
  time test, and that carry no \<open>correlation_id\<close>; when the new transaction carries a
  \<open>correlation_id\<close> it keeps none. The update of a merge writes \<open>correlation_info\<close>
  and leaves \<open>correlation_id\<close> as it was, so the winner of an earlier merge is as
  eligible as it was before.
\<close>

theorem correlated_records_are_skipped:
  assumes "calculateTimeWindow tz (timestamp new) = Inr (start, end)"
      and "getDocs (build_constraints uid
              \<lparr>filter_category = None, startDate = Some start, endDate = Some end,
               filter_status = None, limit = Some 50\<rparr>) = Inr docs"
  shows "findPotentialMatches getDocs tz new uid
      = Inr (filter (\<lambda>d. tx_id d \<noteq> tx_id new
                      \<and> \<not> truthy (correlation_id d) \<and> \<not> truthy (correlation_id new)
                      \<and> isAmountMatch (amount new) (amount d)
                      \<and> isTimeMatch tz (timestamp new) (timestamp d)) docs)
     \<and> correlation_id (apply_update d updateData now) = correlation_id d"
  using assms
  by (simp add: findPotentialMatches_def getUserTransactions_def apply_update_def)

theorem correlated_records_are_skipped_witness:
  "findPotentialMatches ex_getDocs_correlated 0 ex_new ''u1'' = Inr [ex_existing]"
proof -
  have win: "calculateTimeWindow 0 (timestamp ex_new)
      = Inr (utc 2025 1 24 13 35 0, utc 2025 1 24 15 35 0)"
    by code_simp
  have docs: "ex_getDocs_correlated (build_constraints ''u1''
      \<lparr>filter_category = None, startDate = Some (utc 2025 1 24 13 35 0),
       endDate = Some (utc 2025 1 24 15 35 0), filter_status = None, limit = Some 50\<rparr>)
      = Inr [ex_correlated, ex_existing]"
    by (simp add: ex_getDocs_correlated_def)
  have skip: "truthy (correlation_id ex_correlated)"
    by (simp add: ex_correlated_def truthy_def)
  have keep: "tx_id ex_existing \<noteq> tx_id ex_new" "\<not> truthy (correlation_id ex_existing)"
    "\<not> truthy (correlation_id ex_new)" "isAmountMatch (amount ex_new) (amount ex_existing)"
    "isTimeMatch 0 (timestamp ex_new) (timestamp ex_existing)"
    by code_simp+
  show ?thesis
    using correlated_records_are_skipped [where getDocs = ex_getDocs_correlated
        and uid = "''u1''" and tz = 0 and new = ex_new, OF win docs] skip keep
    by simp
qed

text \<open>
  C8 as stated fails: a stored record that passes the amount and the time test and has
  another id, but carries a \<open>correlation_id\<close>, is not returned.
\<close>

theorem correlated_records_counterexample:
  "findPotentialMatches ex_getDocs_only_correlated 0 ex_new ''u1'' = Inr []
   \<and> tx_id ex_correlated \<noteq> tx_id ex_new
   \<and> isAmountMatch (amount ex_new) (amount ex_correlated)
   \<and> isTimeMatch 0 (timestamp ex_new) (timestamp ex_correlated)
   \<and> correlation_id ex_correlated = Some ''corr_1737729000000_k3j9x0q2a''"
  by code_simp

subsection \<open>Merging twice\<close>

lemma same_name_refl: "same_name x x"
  by (simp add: same_name_def)

lemma find_same_name_iff:
  "find (\<lambda>item. same_name item n) merged \<noteq> None \<longleftrightarrow> (\<exists>item \<in> set merged. same_name item n)"
  by (auto simp: find_None_iff)

lemma merge_loop_extends: "\<exists>ys. merge_loop merged ns = merged @ ys"
proof (induction ns arbitrary: merged)
  case Nil
  then show ?case by simp
next
  case (Cons n ns)
  show ?case
  proof (cases "find (\<lambda>item. same_name item n) merged")
    case None
    with Cons [of "merged @ [n]"] show ?thesis by auto
  next
    case (Some a)
    with Cons [of merged] show ?thesis by auto
  qed
qed

lemma merge_loop_covers:
  "n \<in> set ns \<Longrightarrow> \<exists>item \<in> set (merge_loop merged ns). same_name item n"
proof (induction ns arbitrary: merged)
  case Nil
  then show ?case by simp
next
  case (Cons n0 ns)
  let ?next = "case find (\<lambda>item. same_name item n0) merged of
      None \<Rightarrow> merged @ [n0] | Some exists \<Rightarrow> merged"
  have step: "merge_loop merged (n0 # ns) = merge_loop ?next ns"
    by simp
  show ?case
  proof (cases "n = n0")
    case True
    have "\<exists>item \<in> set ?next. same_name item n0"
      using find_same_name_iff [of n0 merged] same_name_refl
      by (cases "find (\<lambda>item. same_name item n0) merged") auto
    moreover obtain ys where "merge_loop ?next ns = ?next @ ys"
      using merge_loop_extends by blast
    ultimately show ?thesis
      using True step by auto
  next
    case False
    then have "n \<in> set ns"
      using Cons.prems by simp
    from Cons.IH [OF this, of ?next] show ?thesis
      using step by simp
  qed
qed

lemma merge_loop_absorbs:
  "(\<And>n. n \<in> set ns \<Longrightarrow> \<exists>item \<in> set merged. same_name item n)
     \<Longrightarrow> merge_loop merged ns = merged"
proof (induction ns)
  case Nil
  then show ?case by simp
next
  case (Cons n ns)
  have "\<exists>item \<in> set merged. same_name item n"
    using Cons.prems [of n] by simp
  then have "find (\<lambda>item. same_name item n) merged \<noteq> None"
    by (simp only: find_same_name_iff)
  then obtain a where "find (\<lambda>item. same_name item n) merged = Some a"
    by auto
  then have "merge_loop merged (n # ns) = merge_loop merged ns"
    by simp
  also have "\<dots> = merged"
    using Cons.IH Cons.prems by simp
  finally show ?case .
qed

lemma mergeItems_again: "mergeItems (Some (mergeItems e n)) n = mergeItems e n"
proof (cases "e = None \<or> e = Some []")
  case True
  show ?thesis
  proof (cases "n = None \<or> n = Some []")
    case True
    with \<open>e = None \<or> e = Some []\<close> show ?thesis
      by (auto simp: mergeItems_def)
  next
    case False
    then obtain ns where ns: "n = Some ns" "ns \<noteq> []"
      by (cases n) auto
    have "merge_loop ns ns = ns"
      by (rule merge_loop_absorbs) (use same_name_refl in blast)
    with True ns show ?thesis
      by (auto simp: mergeItems_def)
  qed
next
  case False
  then obtain es where es: "e = Some es" "es \<noteq> []"
    by (cases e) auto
  show ?thesis
  proof (cases "n = None \<or> n = Some []")
    case True
    with es show ?thesis
      by (auto simp: mergeItems_def)
  next
    case False
    then obtain ns where ns: "n = Some ns" "ns \<noteq> []"
      by (cases n) auto
    obtain ys where ext: "merge_loop es ns = es @ ys"
      using merge_loop_extends by blast
    have "merge_loop (merge_loop es ns) ns = merge_loop es ns"
      by (rule merge_loop_absorbs) (rule merge_loop_covers)
    with es ns ext show ?thesis
      by (simp add: mergeItems_def)
  qed
qed

lemma or_string_again: "or_string (or_string a b) b = or_string a b"
  by (simp add: or_string_def)

lemma or_number_again: "or_number (or_number a b) b = or_number a b"
  by (simp add: or_number_def)

lemma chooseBetterTimestamp_again:
  "chooseBetterTimestamp tz (chooseBetterTimestamp tz e n) n = chooseBetterTimestamp tz e n"
  by (simp add: chooseBetterTimestamp_def)

lemma merge_updates_winner:
  assumes "st k = Some w" and "tx_id e = Some k" and "tx_id i \<noteq> Some k"
  shows "snd (mergeTransactions tz now None df st e i inp a) k
      = Some (apply_update w (mergedData tz now e i inp a) now)"
proof (cases "truthy (tx_id i)")
  case True
  then obtain j where j: "tx_id i = Some j" "j \<noteq> k"
    using assms(3) by (cases "tx_id i") (auto simp: truthy_def)
  show ?thesis
    using assms(1,2) True j
    by (cases df)
       (simp_all add: mergeTransactions_def updateTransaction_def deleteDuplicateTransaction_def)
next
  case False
  then show ?thesis
    using assms(1,2)
    by (simp add: mergeTransactions_def updateTransaction_def)
qed

text \<open>
  C1 (as the code merges). Let a merge of an incoming transaction into the stored winner
  have updated the winner, whether or not the deletion of the duplicate succeeded, and
  let the same incoming transaction be merged again into the winner as it is stored now.
  The second merge leaves the winner's items, merchant, amount, currency, category and
  timestamp as the first merge left them, and appends one more source entry for the same
  input: after both merges the winner has two entries more than before.
\<close>

theorem merge_retry_appends_source_again:
  assumes "st k = Some w" and "tx_id w = Some k" and "tx_id i \<noteq> Some k"
  shows "\<exists>w1 w2.
        snd (mergeTransactions tz now1 None df1 st w i inp a) k = Some w1
      \<and> snd (mergeTransactions tz now2 None df2
               (snd (mergeTransactions tz now1 None df1 st w i inp a)) w1 i inp a) k = Some w2
      \<and> items w2 = items w1 \<and> merchant w2 = merchant w1 \<and> amount w2 = amount w1
      \<and> currency w2 = currency w1 \<and> category w2 = category w1
      \<and> timestamp w2 = timestamp w1
      \<and> sources w2 = Some (the (sources w1)
            @ [\<lparr>input_type = input_data_type inp, uri = or_string (metadata_uri inp) None,
                added_at = Some now2\<rparr>])
      \<and> length (the (sources w2))
          = length (case sources w of None \<Rightarrow> [] | Some ss \<Rightarrow> ss) + 2"
proof -
  let ?st1 = "snd (mergeTransactions tz now1 None df1 st w i inp a)"
  let ?w1 = "apply_update w (mergedData tz now1 w i inp a) now1"
  let ?w2 = "apply_update ?w1 (mergedData tz now2 ?w1 i inp a) now2"
  have first: "?st1 k = Some ?w1"
    using assms by (rule merge_updates_winner)
  have id1: "tx_id ?w1 = Some k"
    using assms(2) by (simp add: apply_update_def)
  have second: "snd (mergeTransactions tz now2 None df2 ?st1 ?w1 i inp a) k = Some ?w2"
    using first id1 assms(3) by (rule merge_updates_winner)
  have fields: "items ?w2 = items ?w1" "merchant ?w2 = merchant ?w1" "amount ?w2 = amount ?w1"
    "currency ?w2 = currency ?w1" "category ?w2 = category ?w1" "timestamp ?w2 = timestamp ?w1"
    by (simp_all add: apply_update_def mergedData_def mergeItems_again or_string_again
        or_number_again chooseBetterTimestamp_again)
  have src: "sources ?w2 = Some (the (sources ?w1)
      @ [\<lparr>input_type = input_data_type inp, uri = or_string (metadata_uri inp) None,
          added_at = Some now2\<rparr>])"
    by (simp add: apply_update_def mergedData_def)
  have len: "length (the (sources ?w2))
      = length (case sources w of None \<Rightarrow> [] | Some ss \<Rightarrow> ss) + 2"
    by (simp add: apply_update_def mergedData_def)
  show ?thesis
    using first second fields src len by blast
qed


lemma ex_first_sources:
  "map input_type (the (sources (the (ex_after_first_merge ''A''))))
     = [Some ''sms'', Some ''email'']"
  by code_simp

lemma ex_retry_sources:
  "map input_type (the (sources (the (ex_after_retry ''A''))))
     = [Some ''sms'', Some ''email'', Some ''email'']"
  by code_simp

lemma merge_duplicate_after:
  assumes "st k = Some w" and "tx_id e = Some k" and "tx_id i = Some j" and "j \<noteq> k" and "j \<noteq> []"
  shows "snd (mergeTransactions tz now None (Some msg) st e i inp a) j = st j"
    and "snd (mergeTransactions tz now None None st e i inp a) j = None"
  using assms
  by (simp_all add: mergeTransactions_def updateTransaction_def deleteDuplicateTransaction_def
      truthy_def)

theorem merge_retry_appends_source_again_witness:
  "\<exists>w1 w2. ex_after_first_merge ''A'' = Some w1 \<and> ex_after_retry ''A'' = Some w2
      \<and> items w2 = items w1 \<and> merchant w2 = merchant w1 \<and> amount w2 = amount w1
      \<and> timestamp w2 = timestamp w1
      \<and> length (the (sources w1)) = 2 \<and> length (the (sources w2)) = 3"
proof -
  have stored: "ex_store ''A'' = Some ex_existing"
    by (simp add: ex_store_def)
  have winner: "tx_id ex_existing = Some ''A''"
    by (simp add: ex_existing_def)
  have other: "tx_id ex_new \<noteq> Some ''A''"
    by (simp add: ex_new_def)
  from merge_retry_appends_source_again [where st = ex_store and k = "''A''"
      and w = ex_existing and i = ex_new and tz = 0 and ?now1.0 = "utc 2025 1 24 14 35 3"
      and ?df1.0 = "Some ''deadline exceeded''" and ?now2.0 = "utc 2025 1 24 14 35 3"
      and ?df2.0 = None and inp = ex_input and a = "ex_verdict ''same_purchase'' 88",
      OF stored winner other]
  obtain w1 w2 where w1: "ex_after_first_merge ''A'' = Some w1"
    and w2: "snd (mergeTransactions 0 (utc 2025 1 24 14 35 3) None None ex_after_first_merge
        w1 ex_new ex_input (ex_verdict ''same_purchase'' 88)) ''A'' = Some w2"
    and same: "items w2 = items w1" "merchant w2 = merchant w1" "amount w2 = amount w1"
      "timestamp w2 = timestamp w1"
    unfolding ex_after_first_merge_def [symmetric] by blast
  have w2': "ex_after_retry ''A'' = Some w2"
    using w1 w2 by (simp add: ex_after_retry_def)
  from ex_first_sources w1
  have "map input_type (the (sources w1)) = [Some ''sms'', Some ''email'']"
    by simp
  then have "length (map input_type (the (sources w1))) = length [Some ''sms'', Some ''email'']"
    by (rule arg_cong)
  then have one: "length (the (sources w1)) = 2"
    by simp
  from ex_retry_sources w2'
  have "map input_type (the (sources w2)) = [Some ''sms'', Some ''email'', Some ''email'']"
    by simp
  then have "length (map input_type (the (sources w2)))
      = length [Some ''sms'', Some ''email'', Some ''email'']"
    by (rule arg_cong)
  then have two: "length (the (sources w2)) = 3"
    by simp
  show ?thesis
    using w1 w2' same one two by blast
qed

text \<open>
  C1 as stated fails: the SMS record of the cafe payment absorbs the email record; the
  update succeeds and the deletion of the email record fails. After the retry, at the
  same clock reading, the winner lists the sources SMS, email, email, and its state is
  not the state after the first merge.
\<close>

theorem merge_retry_counterexample:
  "ex_after_first_merge ''B'' = ex_store ''B''
   \<and> ex_after_retry ''B'' = None
   \<and> map input_type (the (sources (the (ex_after_first_merge ''A''))))
       = [Some ''sms'', Some ''email'']
   \<and> map input_type (the (sources (the (ex_after_retry ''A''))))
       = [Some ''sms'', Some ''email'', Some ''email'']
   \<and> ex_after_retry ''A'' \<noteq> ex_after_first_merge ''A''"
proof -
  have stored: "ex_store ''A'' = Some ex_existing"
    by (simp add: ex_store_def)
  have winner: "tx_id ex_existing = Some ''A''"
    by (simp add: ex_existing_def)
  have dup: "tx_id ex_new = Some ''B''"
    by (simp add: ex_new_def)
  have b1: "ex_after_first_merge ''B'' = ex_store ''B''"
    unfolding ex_after_first_merge_def
    by (rule merge_duplicate_after(1) [where st = ex_store and k = "''A''",
          OF stored winner dup]) simp_all
  have stored1: "ex_after_first_merge ''A''
      = Some (apply_update ex_existing
          (mergedData 0 (utc 2025 1 24 14 35 3) ex_existing ex_new ex_input
             (ex_verdict ''same_purchase'' 88)) (utc 2025 1 24 14 35 3))"
    unfolding ex_after_first_merge_def
    by (rule merge_updates_winner [where st = ex_store and k = "''A''", OF stored winner])
       (simp add: dup)
  have winner1: "tx_id (the (ex_after_first_merge ''A'')) = Some ''A''"
    by (simp add: stored1 apply_update_def winner)
  have b2: "ex_after_retry ''B'' = None"
    unfolding ex_after_retry_def
    by (rule merge_duplicate_after(2) [where st = ex_after_first_merge and k = "''A''",
          OF stored1 winner1 dup]) simp_all
  have differ: "ex_after_retry ''A'' \<noteq> ex_after_first_merge ''A''"
  proof
    assume "ex_after_retry ''A'' = ex_after_first_merge ''A''"
    then have "map input_type (the (sources (the (ex_after_retry ''A''))))
        = map input_type (the (sources (the (ex_after_first_merge ''A''))))"
      by simp
    then show False
      by (simp add: ex_first_sources ex_retry_sources)
  qed
  from b1 b2 ex_first_sources ex_retry_sources differ show ?thesis
    by (intro conjI)
qed

end
